theory Spec2Isabelle
  imports Main
begin

section \<open>Strings and platform values\<close>

text \<open>
  A JavaScript string is a sequence of UTF-16 code units. A code unit is modelled by its
  number (a natural below 65536); the functions below are total on every list of naturals,
  so every theorem covers every string. \<open>asc\<close> embeds an ASCII literal.
\<close>

type_synonym jsstring = "nat list"

definition asc :: "string \<Rightarrow> jsstring" where
  "asc s = map of_char s"

text \<open>\<open>String(n)\<close> for a non-negative integer: its decimal digits.\<close>

fun decimal :: "nat \<Rightarrow> jsstring" where
  "decimal n = (if n < 10 then [48 + n] else decimal (n div 10) @ [48 + n mod 10])"

declare decimal.simps [simp del]

text \<open>
  An exception value, as far as the program looks at it: whether it is a
  \<open>DOMException\<close>, its \<open>name\<close> and its \<open>message\<close>.
\<close>

record exn =
  is_DOMException :: bool
  exn_name :: jsstring
  exn_message :: jsstring

definition Error :: "jsstring \<Rightarrow> exn" where
  "Error msg = \<lparr>is_DOMException = False, exn_name = asc ''Error'', exn_message = msg\<rparr>"

text \<open>
  A JavaScript number, as far as \<open>retries\<close> needs it: an integer or \<open>NaN\<close>.
  \<open>falsy\<close> is the test of \<open>||\<close>.
\<close>

datatype jsnumber = Num int | NaN

fun falsy :: "jsnumber option \<Rightarrow> bool" where
  "falsy None = True"
| "falsy (Some NaN) = True"
| "falsy (Some (Num n)) = (n = 0)"

section \<open>The HTTP fetcher: \<open>makeRequest\<close>\<close>

text \<open>
  What one call of the platform's \<open>fetch\<close> does: it resolves with a response (its
  status, and what reading its body with \<open>response.text()\<close> gives), or it rejects.
  The transport gives the outcome of each attempt of a request, by URL and attempt number.
\<close>

datatype fetched = Responded nat "exn + jsstring" | Rejected exn

type_synonym transport = "jsstring \<Rightarrow> nat \<Rightarrow> fetched"

record RequestOptions =
  timeout :: "nat option"
  retries :: "jsnumber option"

text \<open>
  The rejection of a \<open>fetch\<close> whose signal is \<open>AbortSignal.timeout(ms)\<close> when the
  time is over: the DOM standard makes that signal abort with a \<open>TimeoutError\<close>
  \<open>DOMException\<close>, and \<open>fetch\<close> rejects with the signal's reason. A signal aborted
  by \<open>AbortController.abort()\<close> gives an \<open>AbortError\<close> instead.
\<close>

definition TimeoutError :: exn where
  "TimeoutError = \<lparr>is_DOMException = True, exn_name = asc ''TimeoutError'',
     exn_message = asc ''The operation timed out.''\<rparr>"

definition AbortError :: exn where
  "AbortError = \<lparr>is_DOMException = True, exn_name = asc ''AbortError'',
     exn_message = asc ''The operation was aborted.''\<rparr>"

text \<open>What a run of \<open>makeRequest\<close> did: its result (\<open>Inl\<close> the error thrown), the
  number of calls of \<open>fetch\<close>, and the delays it slept, in milliseconds, in order.\<close>

record request_run =
  outcome :: "exn + jsstring"
  attempts :: nat
  delays :: "nat list"

definition response_ok :: "nat \<Rightarrow> bool" where
  "response_ok status = (200 \<le> status \<and> status \<le> 299)"

definition status_error :: "nat \<Rightarrow> exn" where
  "status_error status = Error (asc ''Request failed with status code '' @ decimal status)"

text \<open>
  The \<open>try\<close> block of one attempt: \<open>Inl\<close> the error it throws (the rejection of
  \<open>fetch\<close>, or the error made for a response that is not \<open>ok\<close>), \<open>Inr\<close> the promise
  \<open>response.text()\<close> it returns.
\<close>

fun try_block :: "fetched \<Rightarrow> exn + (exn + jsstring)" where
  "try_block (Rejected e) = Inl e"
| "try_block (Responded status body) =
     (if response_ok status then Inr body else Inl (status_error status))"

text \<open>\<open>error instanceof DOMException && error.name === 'AbortError'\<close>.\<close>

definition is_abort :: "exn \<Rightarrow> bool" where
  "is_abort e = (is_DOMException e \<and> exn_name e = asc ''AbortError'')"

text \<open>
  The \<open>for\<close> loop of \<open>makeRequest\<close>, from attempt \<open>attempt\<close> on. A response that is
  \<open>ok\<close> returns \<open>response.text()\<close> without awaiting it, so a failure to read the body
  leaves the function at once, outside the \<open>catch\<close>. An error caught is remembered; an
  \<open>AbortError\<close> or the last attempt ends the loop, anything else sleeps
  \<open>1000 * 2 ** attempt\<close> milliseconds and goes on. After the loop the remembered error
  is thrown.
\<close>

function attempt_loop ::
  "transport \<Rightarrow> jsstring \<Rightarrow> int \<Rightarrow> nat \<Rightarrow> exn option \<Rightarrow> nat list \<Rightarrow> request_run" where
  "attempt_loop tr address budget attempt lastError slept =
     (if int attempt \<le> budget then
        (case try_block (tr address attempt) of
           Inr body \<Rightarrow> \<lparr>outcome = body, attempts = Suc attempt, delays = slept\<rparr>
         | Inl e \<Rightarrow>
             if is_abort e \<or> int attempt = budget then
               \<lparr>outcome = Inl e, attempts = Suc attempt, delays = slept\<rparr>
             else
               attempt_loop tr address budget (Suc attempt) (Some e)
                 (slept @ [1000 * 2 ^ attempt]))
      else
        \<lparr>outcome = Inl (case lastError of Some e \<Rightarrow> e
                             | None \<Rightarrow> Error (asc ''Request failed'')),
         attempts = attempt, delays = slept\<rparr>)"
  by pat_completeness auto
termination
  by (relation "measure (\<lambda>(tr, address, budget, attempt, lastError, slept).
        nat (budget + 1 - int attempt))") auto

declare attempt_loop.simps [simp del]

text \<open>\<open>const retries = options.retries || 2\<close>.\<close>

definition retry_budget :: "RequestOptions \<Rightarrow> int" where
  "retry_budget options =
     (case retries options of
        Some (Num n) \<Rightarrow> if n = 0 then 2 else n
      | Some NaN \<Rightarrow> 2
      | None \<Rightarrow> 2)"

definition makeRequest :: "transport \<Rightarrow> jsstring \<Rightarrow> RequestOptions \<Rightarrow> request_run" where
  "makeRequest tr address options = attempt_loop tr address (retry_budget options) 0 None []"


text \<open>
  The failures the claims about retries speak of: a rejection that is not an abort, or a
  response whose status is not 2xx; and the error such an attempt leaves in \<open>lastError\<close>.
\<close>

definition non_abort_failure :: "fetched \<Rightarrow> bool" where
  "non_abort_failure f =
     (case f of Rejected e \<Rightarrow> \<not> is_abort e | Responded status body \<Rightarrow> \<not> response_ok status)"

fun failure_of :: "fetched \<Rightarrow> exn" where
  "failure_of (Rejected e) = e"
| "failure_of (Responded status body) = status_error status"


definition always_unreachable :: transport where
  "always_unreachable address attempt =
     Rejected \<lparr>is_DOMException = False, exn_name = asc ''TypeError'',
       exn_message = asc ''fetch failed''\<rparr>"

definition always_times_out :: transport where
  "always_times_out address attempt = Rejected TimeoutError"

section \<open>Regular expressions\<close>

text \<open>
  The patterns of the program are kept as syntax trees and run by a backtracking matcher
  that follows the ECMAScript semantics of the constructs the program uses: literals,
  character classes, \<open>.\<close>, the assertions \<open>^\<close>, \<open>$\<close> (without the \<open>m\<close> flag) and
  \<open>\b\<close>, sequence, alternation in order, greedy and lazy \<open>*\<close> (an iteration that consumes
  nothing is rejected, as \<open>RepeatMatcher\<close> does), capture groups and negative lookahead.
  \<open>r+\<close> is \<open>r\<close> followed by \<open>r*\<close>, \<open>r?\<close> is \<open>r\<close> or the empty pattern; no group of the
  program stands under a quantifier, so captures are never reset.
\<close>

datatype regex =
    Lit jsstring
  | Cls bool "(nat \<times> nat) list"
  | Dot
  | Bol
  | Eol
  | WordB
  | Seq regex regex
  | Alt regex regex
  | Star bool regex
  | Group nat regex
  | NegLook regex

definition seq :: "regex list \<Rightarrow> regex" where
  "seq rs = foldr Seq rs (Lit [])"

definition plus :: "bool \<Rightarrow> regex \<Rightarrow> regex" where
  "plus greedy r = Seq r (Star greedy r)"

definition opt :: "regex \<Rightarrow> regex" where
  "opt r = Alt r (Lit [])"

definition str :: "string \<Rightarrow> regex" where
  "str s = Lit (asc s)"

text \<open>A class that lists single characters, and its negation.\<close>

definition one_of :: "string \<Rightarrow> regex" where
  "one_of s = Cls False (map (\<lambda>c. (of_char c, of_char c)) s)"

definition none_of :: "string \<Rightarrow> regex" where
  "none_of s = Cls True (map (\<lambda>c. (of_char c, of_char c)) s)"

text \<open>
  \<open>\s\<close>: the white space and line terminator code units of ECMAScript. \<open>\d\<close>.
  The line terminators, which \<open>.\<close> does not match without the \<open>s\<close> flag.
\<close>

definition space_ranges :: "(nat \<times> nat) list" where
  "space_ranges = [(9, 13), (32, 32), (160, 160), (5760, 5760), (8192, 8202), (8232, 8233),
     (8239, 8239), (8287, 8287), (12288, 12288), (65279, 65279)]"

definition space :: regex where
  "space = Cls False space_ranges"

definition digit :: regex where
  "digit = Cls False [(48, 57)]"

definition in_ranges :: "(nat \<times> nat) list \<Rightarrow> nat \<Rightarrow> bool" where
  "in_ranges rs c = list_ex (\<lambda>(lo, hi). lo \<le> c \<and> c \<le> hi) rs"

definition line_terminator :: "nat \<Rightarrow> bool" where
  "line_terminator c = (c = 10 \<or> c = 13 \<or> c = 8232 \<or> c = 8233)"

definition word_char :: "nat \<Rightarrow> bool" where
  "word_char c = ((48 \<le> c \<and> c \<le> 57) \<or> (65 \<le> c \<and> c \<le> 90) \<or> c = 95 \<or> (97 \<le> c \<and> c \<le> 122))"

text \<open>
  The \<open>i\<close> flag compares canonicalised code units. Every letter in a pattern of the program
  is an ASCII letter, and the canonical form of a code unit outside ASCII is never inside
  ASCII, so it is enough to fold the ASCII letters.
\<close>

definition canon :: "bool \<Rightarrow> nat \<Rightarrow> nat" where
  "canon ic c = (if ic \<and> 97 \<le> c \<and> c \<le> 122 then c - 32 else c)"

definition uncanon :: "nat \<Rightarrow> nat" where
  "uncanon c = (if 65 \<le> c \<and> c \<le> 90 then c + 32 else c)"

definition cls_match :: "bool \<Rightarrow> bool \<Rightarrow> (nat \<times> nat) list \<Rightarrow> nat \<Rightarrow> bool" where
  "cls_match ic negated rs c =
     (negated \<noteq> (in_ranges rs c \<or>
        (ic \<and> (in_ranges rs (canon True c) \<or> in_ranges rs (uncanon c)))))"

text \<open>
  The matcher runs a stack of pending work at a position of the input: \<open>Re r\<close> matches
  \<open>r\<close>, \<open>Guard p\<close> ends an iteration of a \<open>*\<close> that began at \<open>p\<close> and fails when nothing
  was consumed, \<open>Close i s\<close> ends group \<open>i\<close> opened at \<open>s\<close>. The state is the position,
  the code unit before it, the rest of the input and the captures (group, start, end),
  newest first. The result is the end of the match and its captures.
\<close>

datatype instr = Re regex | Guard nat | Close nat nat

type_synonym captures = "(nat \<times> nat \<times> nat) list"

fun rsize :: "regex \<Rightarrow> nat" where
  "rsize (Seq a b) = Suc (rsize a + rsize b)"
| "rsize (Alt a b) = Suc (rsize a + rsize b)"
| "rsize (Star greedy r) = Suc (rsize r)"
| "rsize (Group i r) = Suc (Suc (rsize r))"
| "rsize (NegLook r) = Suc (rsize r)"
| "rsize r = 1"

text \<open>The work on the stack that can run before the input gets shorter: what stands
  before the first guard that would fail at this position.\<close>

fun pending :: "nat \<Rightarrow> instr list \<Rightarrow> nat" where
  "pending pos [] = 0"
| "pending pos (Re r # k) = rsize r + pending pos k"
| "pending pos (Close i s # k) = Suc (pending pos k)"
| "pending pos (Guard p # k) = (if p < pos then Suc (pending pos k) else 0)"

function run ::
  "bool \<Rightarrow> bool \<Rightarrow> instr list \<Rightarrow> nat \<Rightarrow> nat option \<Rightarrow> jsstring \<Rightarrow> captures \<Rightarrow>
   (nat \<times> captures) option" where
  "run ic da [] pos prev rest caps = Some (pos, caps)"
| "run ic da (Guard p # k) pos prev rest caps =
     (if p < pos then run ic da k pos prev rest caps else None)"
| "run ic da (Close i s # k) pos prev rest caps =
     run ic da k pos prev rest ((i, s, pos) # caps)"
| "run ic da (Re (Lit []) # k) pos prev rest caps = run ic da k pos prev rest caps"
| "run ic da (Re (Lit (c # cs)) # k) pos prev rest caps =
     (case rest of
        [] \<Rightarrow> None
      | x # xs \<Rightarrow>
          if canon ic x = canon ic c then run ic da (Re (Lit cs) # k) (pos + 1) (Some x) xs caps
          else None)"
| "run ic da (Re (Cls negated rs) # k) pos prev rest caps =
     (case rest of
        [] \<Rightarrow> None
      | x # xs \<Rightarrow>
          if cls_match ic negated rs x then run ic da k (pos + 1) (Some x) xs caps else None)"
| "run ic da (Re Dot # k) pos prev rest caps =
     (case rest of
        [] \<Rightarrow> None
      | x # xs \<Rightarrow>
          if da \<or> \<not> line_terminator x then run ic da k (pos + 1) (Some x) xs caps else None)"
| "run ic da (Re Bol # k) pos prev rest caps =
     (if pos = 0 then run ic da k pos prev rest caps else None)"
| "run ic da (Re Eol # k) pos prev rest caps =
     (if rest = [] then run ic da k pos prev rest caps else None)"
| "run ic da (Re WordB # k) pos prev rest caps =
     (if (case prev of None \<Rightarrow> False | Some p \<Rightarrow> word_char p) \<noteq>
         (case rest of [] \<Rightarrow> False | x # xs \<Rightarrow> word_char x)
      then run ic da k pos prev rest caps else None)"
| "run ic da (Re (Seq a b) # k) pos prev rest caps =
     run ic da (Re a # Re b # k) pos prev rest caps"
| "run ic da (Re (Alt a b) # k) pos prev rest caps =
     (case run ic da (Re a # k) pos prev rest caps of
        Some m \<Rightarrow> Some m
      | None \<Rightarrow> run ic da (Re b # k) pos prev rest caps)"
| "run ic da (Re (Star greedy r) # k) pos prev rest caps =
     (if greedy then
        (case run ic da (Re r # Guard pos # Re (Star greedy r) # k) pos prev rest caps of
           Some m \<Rightarrow> Some m
         | None \<Rightarrow> run ic da k pos prev rest caps)
      else
        (case run ic da k pos prev rest caps of
           Some m \<Rightarrow> Some m
         | None \<Rightarrow> run ic da (Re r # Guard pos # Re (Star greedy r) # k) pos prev rest caps))"
| "run ic da (Re (Group i r) # k) pos prev rest caps =
     run ic da (Re r # Close i pos # k) pos prev rest caps"
| "run ic da (Re (NegLook r) # k) pos prev rest caps =
     (case run ic da [Re r] pos prev rest caps of
        Some m \<Rightarrow> None
      | None \<Rightarrow> run ic da k pos prev rest caps)"
  by pat_completeness auto
termination
  by (relation "inv_image (less_than <*lex*> less_than)
        (\<lambda>(ic, da, k, pos, prev, rest, caps). (length rest, pending pos k))") auto


declare run.simps [simp del]

text \<open>
  A pattern with its flags \<open>i\<close> and \<open>s\<close>; the \<open>g\<close> flag is the choice between the
  functions below. A match is the matched text and the text of each group that took part.
\<close>

record pattern =
  tree :: regex
  ignoreCase :: bool
  dotAll :: bool

definition re :: "regex \<Rightarrow> pattern" where
  "re r = \<lparr>tree = r, ignoreCase = False, dotAll = False\<rparr>"

definition re_s :: "regex \<Rightarrow> pattern" where
  "re_s r = \<lparr>tree = r, ignoreCase = False, dotAll = True\<rparr>"

definition re_i :: "regex \<Rightarrow> pattern" where
  "re_i r = \<lparr>tree = r, ignoreCase = True, dotAll = False\<rparr>"

type_synonym rmatch = "jsstring \<times> (nat \<times> jsstring) list"

definition slice :: "jsstring \<Rightarrow> nat \<Rightarrow> nat \<Rightarrow> jsstring" where
  "slice s from to = take (to - from) (drop from s)"

definition match_at :: "pattern \<Rightarrow> nat \<Rightarrow> nat option \<Rightarrow> jsstring \<Rightarrow> (nat \<times> rmatch) option" where
  "match_at p pos prev rest =
     (case run (ignoreCase p) (dotAll p) [Re (tree p)] pos prev rest [] of
        None \<Rightarrow> None
      | Some (e, caps) \<Rightarrow>
          Some (e, take (e - pos) rest,
                map (\<lambda>(i, s, t). (i, slice rest (s - pos) (t - pos))) caps))"

text \<open>\<open>RegExpBuiltinExec\<close> from a position: the first position, going right, where the
  pattern matches (the end of the input included).\<close>

fun exec_from :: "pattern \<Rightarrow> nat \<Rightarrow> nat option \<Rightarrow> jsstring \<Rightarrow> rmatch option" where
  "exec_from p pos prev rest =
     (case match_at p pos prev rest of
        Some (e, m) \<Rightarrow> Some m
      | None \<Rightarrow> (case rest of [] \<Rightarrow> None | x # xs \<Rightarrow> exec_from p (pos + 1) (Some x) xs))"

declare exec_from.simps [simp del]

text \<open>\<open>s.match(p)\<close> without the \<open>g\<close> flag; \<open>None\<close> is \<open>null\<close>. \<open>group i m\<close> is
  \<open>m[i]\<close>, \<open>None\<close> for \<open>undefined\<close>. \<open>p.test(s)\<close>.\<close>

definition match_first :: "pattern \<Rightarrow> jsstring \<Rightarrow> rmatch option" where
  "match_first p s = exec_from p 0 None s"

definition group :: "nat \<Rightarrow> rmatch \<Rightarrow> jsstring option" where
  "group i m = (if i = 0 then Some (fst m) else map_of (snd m) i)"

definition test :: "pattern \<Rightarrow> jsstring \<Rightarrow> bool" where
  "test p s = (match_first p s \<noteq> None)"

text \<open>
  The matches of a pattern with the \<open>g\<close> flag, left to right: after a match the search
  goes on at its end, one code unit further when the match was empty. \<open>skip\<close> counts the
  code units of the last match still to step over.
\<close>

fun scan :: "pattern \<Rightarrow> nat \<Rightarrow> nat option \<Rightarrow> nat \<Rightarrow> jsstring \<Rightarrow> jsstring list" where
  "scan p pos prev skip rest =
     (if 0 < skip then
        (case rest of [] \<Rightarrow> [] | x # xs \<Rightarrow> scan p (pos + 1) (Some x) (skip - 1) xs)
      else
        (case match_at p pos prev rest of
           Some (e, m) \<Rightarrow>
             fst m # (case rest of [] \<Rightarrow> []
                      | x # xs \<Rightarrow> scan p (pos + 1) (Some x) (e - pos - 1) xs)
         | None \<Rightarrow>
             (case rest of [] \<Rightarrow> [] | x # xs \<Rightarrow> scan p (pos + 1) (Some x) 0 xs)))"

declare scan.simps [simp del]

text \<open>\<open>s.match(p)\<close> with the \<open>g\<close> flag: the matched texts; the empty list is \<open>null\<close>.\<close>

definition match_all :: "pattern \<Rightarrow> jsstring \<Rightarrow> jsstring list" where
  "match_all p s = scan p 0 None 0 s"

text \<open>\<open>s.replace(p, by)\<close> with the \<open>g\<close> flag, for a replacement without \<open>$\<close>.\<close>

fun substitute :: "pattern \<Rightarrow> jsstring \<Rightarrow> nat \<Rightarrow> nat option \<Rightarrow> nat \<Rightarrow> jsstring \<Rightarrow> jsstring" where
  "substitute p by pos prev skip rest =
     (if 0 < skip then
        (case rest of [] \<Rightarrow> [] | x # xs \<Rightarrow> substitute p by (pos + 1) (Some x) (skip - 1) xs)
      else
        (case match_at p pos prev rest of
           Some (e, m) \<Rightarrow>
             by @ (case rest of [] \<Rightarrow> []
                   | x # xs \<Rightarrow>
                       (if e = pos then [x] else []) @
                       substitute p by (pos + 1) (Some x) (e - pos - 1) xs)
         | None \<Rightarrow>
             (case rest of [] \<Rightarrow> []
              | x # xs \<Rightarrow> x # substitute p by (pos + 1) (Some x) 0 xs)))"

declare substitute.simps [simp del]

definition replace_all :: "pattern \<Rightarrow> jsstring \<Rightarrow> jsstring \<Rightarrow> jsstring" where
  "replace_all p by s = substitute p by 0 None 0 s"

text \<open>\<open>s.replace(p, by)\<close> without the \<open>g\<close> flag: the first match only.\<close>

fun substitute_first :: "pattern \<Rightarrow> jsstring \<Rightarrow> nat \<Rightarrow> nat option \<Rightarrow> jsstring \<Rightarrow> jsstring" where
  "substitute_first p by pos prev rest =
     (case match_at p pos prev rest of
        Some (e, m) \<Rightarrow> by @ drop (e - pos) rest
      | None \<Rightarrow>
          (case rest of [] \<Rightarrow> []
           | x # xs \<Rightarrow> x # substitute_first p by (pos + 1) (Some x) xs))"

declare substitute_first.simps [simp del]

definition replace_first :: "pattern \<Rightarrow> jsstring \<Rightarrow> jsstring \<Rightarrow> jsstring" where
  "replace_first p by s = substitute_first p by 0 None s"

text \<open>\<open>s.trim()\<close>: white space and line terminators off both ends.\<close>

definition trim :: "jsstring \<Rightarrow> jsstring" where
  "trim s = rev (dropWhile (in_ranges space_ranges) (rev (dropWhile (in_ranges space_ranges) s)))"


text \<open>
  The same search with the pending alternatives kept on a stack: \<open>run_or\<close> is \<open>run\<close>
  that falls back on the frames of the stack when it fails, and \<open>resume\<close> goes on with a
  state or falls back, by a test. The functions \<open>_result\<close> name what each search does
  with the outcome of one attempt. Their equations (proved below) are how the matches on
  a concrete input are computed, one step at a time.
\<close>

datatype frame = Frame "instr list" nat "nat option" jsstring captures

fun alternatives :: "bool \<Rightarrow> bool \<Rightarrow> frame list \<Rightarrow> (nat \<times> captures) option" where
  "alternatives ic da [] = None"
| "alternatives ic da (Frame k pos prev rest caps # bt) =
     (case run ic da k pos prev rest caps of
        Some m \<Rightarrow> Some m
      | None \<Rightarrow> alternatives ic da bt)"

declare alternatives.simps [simp del]

definition run_or ::
  "bool \<Rightarrow> bool \<Rightarrow> instr list \<Rightarrow> nat \<Rightarrow> nat option \<Rightarrow> jsstring \<Rightarrow> captures \<Rightarrow> frame list \<Rightarrow>
   (nat \<times> captures) option" where
  "run_or ic da k pos prev rest caps bt =
     (case run ic da k pos prev rest caps of
        Some m \<Rightarrow> Some m
      | None \<Rightarrow> alternatives ic da bt)"

definition resume ::
  "bool \<Rightarrow> bool \<Rightarrow> bool \<Rightarrow> instr list \<Rightarrow> nat \<Rightarrow> nat option \<Rightarrow> jsstring \<Rightarrow> captures \<Rightarrow>
   frame list \<Rightarrow> (nat \<times> captures) option" where
  "resume ic da b k pos prev rest caps bt =
     (if b then run_or ic da k pos prev rest caps bt else alternatives ic da bt)"

definition match_result ::
  "nat \<Rightarrow> jsstring \<Rightarrow> (nat \<times> captures) option \<Rightarrow> (nat \<times> rmatch) option" where
  "match_result pos rest r =
     (case r of
        None \<Rightarrow> None
      | Some (e, caps) \<Rightarrow>
          Some (e, take (e - pos) rest,
                map (\<lambda>(i, s, t). (i, slice rest (s - pos) (t - pos))) caps))"

definition exec_result ::
  "pattern \<Rightarrow> nat \<Rightarrow> nat option \<Rightarrow> jsstring \<Rightarrow> (nat \<times> rmatch) option \<Rightarrow> rmatch option" where
  "exec_result p pos prev rest r =
     (case r of
        Some (e, m) \<Rightarrow> Some m
      | None \<Rightarrow> (case rest of [] \<Rightarrow> None | x # xs \<Rightarrow> exec_from p (pos + 1) (Some x) xs))"

definition scan_result ::
  "pattern \<Rightarrow> nat \<Rightarrow> nat option \<Rightarrow> jsstring \<Rightarrow> (nat \<times> rmatch) option \<Rightarrow> jsstring list" where
  "scan_result p pos prev rest r =
     (case r of
        Some (e, m) \<Rightarrow>
          fst m # (case rest of [] \<Rightarrow> []
                   | x # xs \<Rightarrow> scan p (pos + 1) (Some x) (e - pos - 1) xs)
      | None \<Rightarrow> (case rest of [] \<Rightarrow> [] | x # xs \<Rightarrow> scan p (pos + 1) (Some x) 0 xs))"

definition substitute_result ::
  "pattern \<Rightarrow> jsstring \<Rightarrow> nat \<Rightarrow> nat option \<Rightarrow> jsstring \<Rightarrow> (nat \<times> rmatch) option \<Rightarrow> jsstring" where
  "substitute_result p by pos prev rest r =
     (case r of
        Some (e, m) \<Rightarrow>
          by @ (case rest of [] \<Rightarrow> []
                | x # xs \<Rightarrow>
                    (if e = pos then [x] else []) @
                    substitute p by (pos + 1) (Some x) (e - pos - 1) xs)
      | None \<Rightarrow>
          (case rest of [] \<Rightarrow> []
           | x # xs \<Rightarrow> x # substitute p by (pos + 1) (Some x) 0 xs))"

definition substitute_first_result ::
  "pattern \<Rightarrow> jsstring \<Rightarrow> nat \<Rightarrow> nat option \<Rightarrow> jsstring \<Rightarrow> (nat \<times> rmatch) option \<Rightarrow> jsstring" where
  "substitute_first_result p by pos prev rest r =
     (case r of
        Some (e, m) \<Rightarrow> by @ drop (e - pos) rest
      | None \<Rightarrow>
          (case rest of [] \<Rightarrow> []
           | x # xs \<Rightarrow> x # substitute_first p by (pos + 1) (Some x) xs))"

section \<open>URI components\<close>

text \<open>
  \<open>encodeURIComponent\<close> and \<open>decodeURIComponent\<close> as ECMAScript defines them (\<open>Encode\<close>
  and \<open>Decode\<close>); both throw a \<open>URIError\<close>, the first on a lone surrogate, the second
  on a \<open>%\<close> that is not followed by two hexadecimal digits or on bytes that are not
  well-formed UTF-8.
\<close>

definition URIError :: exn where
  "URIError = \<lparr>is_DOMException = False, exn_name = asc ''URIError'',
     exn_message = asc ''URI malformed''\<rparr>"

definition hex_value :: "nat \<Rightarrow> nat option" where
  "hex_value c =
     (if 48 \<le> c \<and> c \<le> 57 then Some (c - 48)
      else if 65 \<le> c \<and> c \<le> 70 then Some (c - 55)
      else if 97 \<le> c \<and> c \<le> 102 then Some (c - 87)
      else None)"

definition hex_digit :: "nat \<Rightarrow> nat" where
  "hex_digit d = (if d < 10 then 48 + d else 55 + d)"

definition utf16_encode :: "nat \<Rightarrow> jsstring" where
  "utf16_encode v =
     (if v < 65536 then [v]
      else [55296 + (v - 65536) div 1024, 56320 + (v - 65536) mod 1024])"

definition utf8_encode :: "nat \<Rightarrow> nat list" where
  "utf8_encode v =
     (if v < 128 then [v]
      else if v < 2048 then [192 + v div 64, 128 + v mod 64]
      else if v < 65536 then [224 + v div 4096, 128 + v div 64 mod 64, 128 + v mod 64]
      else [240 + v div 262144, 128 + v div 4096 mod 64, 128 + v div 64 mod 64,
            128 + v mod 64])"

text \<open>The code point of a well-formed UTF-8 sequence of 2 to 4 bytes: continuation bytes
  in range, no overlong form, no surrogate, nothing above U+10FFFF.\<close>

definition utf8_point :: "nat list \<Rightarrow> nat option" where
  "utf8_point bs =
     (case bs of
        [b0, b1] \<Rightarrow>
          if 194 \<le> b0 \<and> b0 \<le> 223 \<and> 128 \<le> b1 \<and> b1 \<le> 191
          then Some ((b0 - 192) * 64 + (b1 - 128)) else None
      | [b0, b1, b2] \<Rightarrow>
          if 224 \<le> b0 \<and> b0 \<le> 239 \<and> 128 \<le> b1 \<and> b1 \<le> 191 \<and> 128 \<le> b2 \<and> b2 \<le> 191
             \<and> 2048 \<le> (b0 - 224) * 4096 + (b1 - 128) * 64 + (b2 - 128)
             \<and> \<not> (55296 \<le> (b0 - 224) * 4096 + (b1 - 128) * 64 + (b2 - 128)
                  \<and> (b0 - 224) * 4096 + (b1 - 128) * 64 + (b2 - 128) \<le> 57343)
          then Some ((b0 - 224) * 4096 + (b1 - 128) * 64 + (b2 - 128)) else None
      | [b0, b1, b2, b3] \<Rightarrow>
          if 240 \<le> b0 \<and> b0 \<le> 247 \<and> 128 \<le> b1 \<and> b1 \<le> 191 \<and> 128 \<le> b2 \<and> b2 \<le> 191
             \<and> 128 \<le> b3 \<and> b3 \<le> 191
             \<and> 65536 \<le> (b0 - 240) * 262144 + (b1 - 128) * 4096 + (b2 - 128) * 64 + (b3 - 128)
             \<and> (b0 - 240) * 262144 + (b1 - 128) * 4096 + (b2 - 128) * 64 + (b3 - 128) \<le> 1114111
          then Some ((b0 - 240) * 262144 + (b1 - 128) * 4096 + (b2 - 128) * 64 + (b3 - 128))
          else None
      | _ \<Rightarrow> None)"

text \<open>\<open>n\<close> escapes \<open>%XX\<close> at the head of a string: their bytes.\<close>

fun escapes :: "nat \<Rightarrow> jsstring \<Rightarrow> nat list option" where
  "escapes n s =
     (if n = 0 then Some []
      else
        (case s of
           p # h1 # h2 # t \<Rightarrow>
             (case (hex_value h1, hex_value h2, escapes (n - 1) t) of
                (Some a, Some b, Some bs) \<Rightarrow> if p = 37 then Some ((16 * a + b) # bs) else None
              | _ \<Rightarrow> None)
         | _ \<Rightarrow> None))"

declare escapes.simps [simp del]

text \<open>The length of the UTF-8 sequence a first byte above 127 announces.\<close>

definition sequence_length :: "nat \<Rightarrow> nat option" where
  "sequence_length b =
     (if 192 \<le> b \<and> b \<le> 223 then Some 2
      else if 224 \<le> b \<and> b \<le> 239 then Some 3
      else if 240 \<le> b \<and> b \<le> 247 then Some 4
      else None)"

function uri_decode :: "jsstring \<Rightarrow> jsstring option" where
  "uri_decode [] = Some []"
| "uri_decode (c # s) =
     (if c \<noteq> 37 then map_option ((#) c) (uri_decode s)
      else
        (case escapes 1 (c # s) of
           None \<Rightarrow> None
         | Some first \<Rightarrow>
             if hd first < 128 then map_option ((#) (hd first)) (uri_decode (drop 2 s))
             else
               (case sequence_length (hd first) of
                  None \<Rightarrow> None
                | Some n \<Rightarrow>
                    (case escapes n (c # s) of
                       None \<Rightarrow> None
                     | Some bytes \<Rightarrow>
                         (case utf8_point bytes of
                            None \<Rightarrow> None
                          | Some v \<Rightarrow>
                              map_option ((@) (utf16_encode v))
                                (uri_decode (drop (3 * n - 1) s)))))))"
  by pat_completeness auto
termination
  by (relation "measure length") auto

declare uri_decode.simps [simp del]

definition decodeURIComponent :: "jsstring \<Rightarrow> exn + jsstring" where
  "decodeURIComponent s = (case uri_decode s of None \<Rightarrow> Inl URIError | Some t \<Rightarrow> Inr t)"

definition unreserved :: "nat \<Rightarrow> bool" where
  "unreserved c = ((48 \<le> c \<and> c \<le> 57) \<or> (65 \<le> c \<and> c \<le> 90) \<or> (97 \<le> c \<and> c \<le> 122)
     \<or> c \<in> set (asc ''-_.!~*()'') \<or> c = 39)"

definition percent :: "nat list \<Rightarrow> jsstring" where
  "percent bs = concat (map (\<lambda>b. [37, hex_digit (b div 16), hex_digit (b mod 16)]) bs)"

fun uri_encode :: "jsstring \<Rightarrow> jsstring option" where
  "uri_encode [] = Some []"
| "uri_encode [c] =
     (if unreserved c then Some [c]
      else if 55296 \<le> c \<and> c \<le> 57343 then None
      else Some (percent (utf8_encode c)))"
| "uri_encode (c # d # s) =
     (if unreserved c then map_option ((#) c) (uri_encode (d # s))
      else if 55296 \<le> c \<and> c \<le> 56319 then
        (if 56320 \<le> d \<and> d \<le> 57343
         then map_option ((@) (percent (utf8_encode (65536 + (c - 55296) * 1024 + (d - 56320)))))
                (uri_encode s)
         else None)
      else if 56320 \<le> c \<and> c \<le> 57343 then None
      else map_option ((@) (percent (utf8_encode c))) (uri_encode (d # s)))"

definition encodeURIComponent :: "jsstring \<Rightarrow> exn + jsstring" where
  "encodeURIComponent s = (case uri_encode s of None \<Rightarrow> Inl URIError | Some t \<Rightarrow> Inr t)"

section \<open>The search result extractor\<close>

record SearchResult =
  title :: jsstring
  url :: jsstring
  displayUrl :: jsstring
  snippet :: jsstring

record ContentResult = SearchResult +
  content :: "jsstring option"
  error :: "jsstring option"

record SearchResponse =
  search_query :: jsstring
  search_results :: "SearchResult list"
  search_error :: "jsstring option"

record ContentResponse =
  query :: jsstring
  results :: "ContentResult list"
  response_error :: "jsstring option"

text \<open>\<open>m[i]\<close> for a group that takes part in every match of its pattern (every group of
  the patterns below does).\<close>

definition capture :: "nat \<Rightarrow> rmatch \<Rightarrow> jsstring" where
  "capture i m = (case group i m of Some g \<Rightarrow> g | None \<Rightarrow> [])"

definition tag_re :: pattern where
  "tag_re = re (seq [str ''<'', plus True (none_of ''>''), str ''>''])"

definition spaces_re :: pattern where
  "spaces_re = re (plus True space)"

definition cleanHTML :: "jsstring \<Rightarrow> jsstring" where
  "cleanHTML text =
     (if text = [] then []
      else
        trim (replace_all spaces_re (asc '' '')
          (replace_all tag_re []
            (replace_all (re (str ''&nbsp;'')) (asc '' '')
              (replace_all (re (str ''&#39;'')) [39]
                (replace_all (re (str ''&#x27;'')) [39]
                  (replace_all (re (str ''&quot;'')) [34]
                    (replace_all (re (str ''&gt;'')) (asc ''>'')
                      (replace_all (re (str ''&lt;'')) (asc ''<'')
                        (replace_all (re (str ''&amp;'')) (asc ''&'') text))))))))))"

text \<open>The patterns of \<open>extractDDGResults\<close>, in the order of the source.\<close>

definition serp_re :: pattern where
  \<open>serp_re = re_s (seq [str ''<div class="serp__results">'', Group 1 (Star False Dot),
     str ''<div class="'', Group 2 (Alt (str ''nav-link'') (str ''feedback-btn'')), str ''"''])\<close>

definition block_re :: pattern where
  \<open>block_re = re_s (seq
     [str ''<div class="result results_links results_links_deep web-result'',
      Star True (none_of ''>''), str ''>'', Group 1 (Star False Dot),
      str ''<div class="clear"></div>''])\<close>

definition title_re :: pattern where
  \<open>title_re = re_s (seq [str ''<a rel="nofollow" class="result__a"'',
     Star True (none_of ''>''), str ''>'', Group 1 (Star False Dot), str ''</a>''])\<close>

definition uddg_re :: pattern where
  \<open>uddg_re = re (seq [str ''href="//duckduckgo.com/l/?uddg='', Group 1 (Star False Dot),
     Alt (str ''&'') (str ''"'')])\<close>

definition display_url_re :: pattern where
  \<open>display_url_re = re_s (seq [str ''<a class="result__url"'',
     Star True (none_of ''>''), str ''>'', Group 1 (Star False Dot), str ''</a>''])\<close>

definition snippet_re :: pattern where
  \<open>snippet_re = re_s (seq [str ''<a class="result__snippet"'',
     Star True (none_of ''>''), str ''>'', Group 1 (Star False Dot), str ''</a>''])\<close>

text \<open>
  The body of the loop of \<open>extractDDGResults\<close> for one block: \<open>Inl\<close> when it throws (the
  \<open>catch\<close> then goes on with the next block), \<open>Inr None\<close> when the title or the URL did
  not match, \<open>Inr (Some r)\<close> when \<open>r\<close> is pushed. \<open>hostname\<close> stands for the platform's
  \<open>new URL(s).hostname\<close>, which throws on a string that is not an absolute URL; it is a
  parameter of the model.
\<close>

definition displayUrl_of ::
    "(jsstring \<Rightarrow> exn + jsstring) \<Rightarrow> jsstring \<Rightarrow> jsstring \<Rightarrow> exn + jsstring" where
  "displayUrl_of hostname block address =
     (case match_first display_url_re block of
        Some displayUrlMatch \<Rightarrow> Inr (cleanHTML (capture 1 displayUrlMatch))
      | None \<Rightarrow> hostname address)"

definition snippet_of :: "jsstring \<Rightarrow> jsstring" where
  "snippet_of block =
     (case match_first snippet_re block of
        Some snippetMatch \<Rightarrow> cleanHTML (capture 1 snippetMatch)
      | None \<Rightarrow> [])"

definition result_of_block ::
    "(jsstring \<Rightarrow> exn + jsstring) \<Rightarrow> jsstring \<Rightarrow> exn + SearchResult option" where
  "result_of_block hostname block =
     (case (match_first title_re block, match_first uddg_re block) of
        (Some titleMatch, Some urlMatch) \<Rightarrow>
          (case decodeURIComponent (capture 1 urlMatch) of
             Inl e \<Rightarrow> Inl e
           | Inr address \<Rightarrow>
               (case displayUrl_of hostname block address of
                  Inl e \<Rightarrow> Inl e
                | Inr shown \<Rightarrow>
                    Inr (Some \<lparr>title = cleanHTML (capture 1 titleMatch), url = address,
                      displayUrl = shown, snippet = snippet_of block\<rparr>)))
      | _ \<Rightarrow> Inr None)"

fun block_results :: "(jsstring \<Rightarrow> exn + jsstring) \<Rightarrow> jsstring list \<Rightarrow> SearchResult list" where
  "block_results hostname [] = []"
| "block_results hostname (block # blocks) =
     (case result_of_block hostname block of
        Inr (Some r) \<Rightarrow> r # block_results hostname blocks
      | _ \<Rightarrow> block_results hostname blocks)"

definition extractDDGResults :: "(jsstring \<Rightarrow> exn + jsstring) \<Rightarrow> jsstring \<Rightarrow> SearchResult list" where
  "extractDDGResults hostname html =
     (case match_first serp_re html of
        None \<Rightarrow> []
      | Some resultsMatch \<Rightarrow>
          (let resultBlocks = match_all block_re (capture 1 resultsMatch)
           in block_results hostname (take (min 10 (length resultBlocks)) resultBlocks)))"

text \<open>The patterns of \<open>extractDDGResultsAlternative\<close>.\<close>

definition links_re :: pattern where
  \<open>links_re = re_s (seq [str ''<h2 class="result__title">'', Star False Dot,
     str ''<a rel="nofollow" class="result__a"'', Star False Dot, str ''href="'',
     Star False Dot, str ''uddg='', Group 1 (Star False Dot), Alt (str ''&'') (str ''"''),
     Star False Dot, str ''>'', Group 2 (Star False Dot), str ''</a>'', Star False Dot,
     str ''<a class="result__snippet"'', Star False Dot, str ''>'', Group 3 (Star False Dot),
     str ''</a>''])\<close>

definition alt_title_re :: pattern where
  \<open>alt_title_re = re_s (seq [str ''<a rel="nofollow" class="result__a"'', Star False Dot,
     str ''>'', Group 1 (Star False Dot), str ''</a>''])\<close>

definition alt_uddg_re :: pattern where
  \<open>alt_uddg_re = re (seq [str ''href="'', Star False Dot, str ''uddg='',
     Group 1 (Star False Dot), Alt (str ''&'') (str ''"'')])\<close>

definition alt_snippet_re :: pattern where
  \<open>alt_snippet_re = re_s (seq [str ''<a class="result__snippet"'', Star False Dot,
     str ''>'', Group 1 (Star False Dot), str ''</a>''])\<close>

definition result_of_link ::
    "(jsstring \<Rightarrow> exn + jsstring) \<Rightarrow> jsstring \<Rightarrow> exn + SearchResult option" where
  "result_of_link hostname link =
     (case (match_first alt_title_re link, match_first alt_uddg_re link) of
        (Some titleMatch, Some urlMatch) \<Rightarrow>
          (case decodeURIComponent (capture 1 urlMatch) of
             Inl e \<Rightarrow> Inl e
           | Inr address \<Rightarrow>
               (case hostname address of
                  Inl e \<Rightarrow> Inl e
                | Inr host \<Rightarrow>
                    Inr (Some \<lparr>title = cleanHTML (capture 1 titleMatch), url = address,
                      displayUrl = host,
                      snippet = (case match_first alt_snippet_re link of
                                   Some snippetMatch \<Rightarrow> cleanHTML (capture 1 snippetMatch)
                                 | None \<Rightarrow> [])\<rparr>)))
      | _ \<Rightarrow> Inr None)"

text \<open>Here one \<open>try\<close> holds the whole loop: the first link that throws ends it, and the
  results pushed before are returned.\<close>

fun link_results :: "(jsstring \<Rightarrow> exn + jsstring) \<Rightarrow> jsstring list \<Rightarrow> SearchResult list" where
  "link_results hostname [] = []"
| "link_results hostname (link # links) =
     (case result_of_link hostname link of
        Inl e \<Rightarrow> []
      | Inr None \<Rightarrow> link_results hostname links
      | Inr (Some r) \<Rightarrow> r # link_results hostname links)"

definition extractDDGResultsAlternative ::
    "(jsstring \<Rightarrow> exn + jsstring) \<Rightarrow> jsstring \<Rightarrow> SearchResult list" where
  "extractDDGResultsAlternative hostname html = link_results hostname (match_all links_re html)"

text \<open>What \<open>searchDuckDuckGo\<close> returns once the page has been fetched.\<close>

definition search_page :: "(jsstring \<Rightarrow> exn + jsstring) \<Rightarrow> jsstring \<Rightarrow> jsstring \<Rightarrow> SearchResponse" where
  "search_page hostname q html =
     (let found = extractDDGResults hostname html in
      if length found = 0 then
        (let alternativeResults = extractDDGResultsAlternative hostname html in
         if 0 < length alternativeResults then
           \<lparr>search_query = q, search_results = alternativeResults, search_error = None\<rparr>
         else
           \<lparr>search_query = q, search_results = [],
            search_error = Some (asc ''No results found or couldn't parse results'')\<rparr>)
      else
        \<lparr>search_query = q, search_results = found, search_error = None\<rparr>)"

definition search_url :: "jsstring \<Rightarrow> jsstring" where
  "search_url encodedQuery = asc ''https://html.duckduckgo.com/html/?q='' @ encodedQuery"

definition searchDuckDuckGo ::
    "transport \<Rightarrow> (jsstring \<Rightarrow> exn + jsstring) \<Rightarrow> jsstring \<Rightarrow> SearchResponse" where
  "searchDuckDuckGo tr hostname q =
     (case encodeURIComponent q of
        Inl e \<Rightarrow> \<lparr>search_query = q, search_results = [], search_error = Some (exn_message e)\<rparr>
      | Inr encodedQuery \<Rightarrow>
          (case outcome (makeRequest tr (search_url encodedQuery)
                           \<lparr>timeout = Some 10000, retries = Some (Num 2)\<rparr>) of
             Inl e \<Rightarrow>
               \<lparr>search_query = q, search_results = [], search_error = Some (exn_message e)\<rparr>
           | Inr html \<Rightarrow> search_page hostname q html))"

section \<open>The content extractor\<close>

text \<open>
  The pattern \<open><tag\b[^<]*(?:(?!<\/tag>)<[^<]*)*<\/tag>\<close> with the flags \<open>gi\<close>, which the
  source writes out for \<open>script\<close>, \<open>style\<close>, \<open>header\<close>, \<open>footer\<close>, \<open>nav\<close>, \<open>aside\<close>,
  \<open>form\<close>, \<open>main\<close>, \<open>article\<close> and \<open>body\<close>.
\<close>

definition element_re :: "string \<Rightarrow> pattern" where
  "element_re tag = re_i (seq [str (''<'' @ tag), WordB, Star True (none_of ''<''),
     Star True (seq [NegLook (str (''</'' @ tag @ ''>'')), str ''<'', Star True (none_of ''<'')]),
     str (''</'' @ tag @ ''>'')])"

definition comment_re :: pattern where
  "comment_re = re_s (seq [str ''<!--'', Star False Dot, str ''-->''])"

definition quote :: regex where
  "quote = Cls False [(34, 34), (39, 39)]"

definition no_quote :: regex where
  "no_quote = Cls True [(34, 34), (39, 39)]"

definition content_names :: regex where
  "content_names = Alt (str ''content'') (Alt (str ''post-content'') (Alt (str ''entry-content'')
     (Alt (str ''article-content'') (Alt (str ''page-content'') (str ''main-content'')))))"

definition class_div_re :: pattern where
  "class_div_re = re_i (seq [str ''<div'', plus True space,
     opt (seq [Star True (none_of ''>''), plus True space]),
     str ''class'', Star True space, str ''='', Star True space, quote,
     opt (seq [Star True no_quote, plus True space]), content_names, Star True no_quote, quote,
     Star True (none_of ''>''), str ''>'', Star False Dot, str ''</div>''])"

definition id_div_re :: pattern where
  "id_div_re = re_i (seq [str ''<div'', plus True space,
     opt (seq [Star True (none_of ''>''), plus True space]),
     str ''id'', Star True space, str ''='', Star True space, quote, content_names, quote,
     Star True (none_of ''>''), str ''>'', Star False Dot, str ''</div>''])"

definition contentSelectors :: "pattern list" where
  "contentSelectors = [element_re ''main'', element_re ''article'', class_div_re, id_div_re,
     element_re ''body'']"

text \<open>\<open>matches.join(" ")\<close>.\<close>

fun join :: "jsstring \<Rightarrow> jsstring list \<Rightarrow> jsstring" where
  "join sep [] = []"
| "join sep [s] = s"
| "join sep (s # t # ts) = s @ sep @ join sep (t # ts)"

text \<open>The loop over the selectors: the matches of the first selector that has any,
  joined; the empty string when none has.\<close>

fun select_content :: "pattern list \<Rightarrow> jsstring \<Rightarrow> jsstring" where
  "select_content [] cleanedContent = []"
| "select_content (selector # selectors) cleanedContent =
     (let matches = match_all selector cleanedContent in
      if 0 < length matches then join (asc '' '') matches
      else select_content selectors cleanedContent)"

text \<open>
  \<open>extractMainContent\<close>. No operation of its \<open>try\<close> block throws on a string, so the
  \<open>catch\<close> that would return \<open>"Failed to extract content"\<close> is never entered and the
  function is modelled by the block.
\<close>

definition extractMainContent :: "jsstring \<Rightarrow> jsstring" where
  "extractMainContent page =
     (if page = [] then []
      else
        (let cleanedContent =
               replace_all comment_re (asc '' '')
                 (replace_all (element_re ''form'') (asc '' '')
                   (replace_all (element_re ''aside'') (asc '' '')
                     (replace_all (element_re ''nav'') (asc '' '')
                       (replace_all (element_re ''footer'') (asc '' '')
                         (replace_all (element_re ''header'') (asc '' '')
                           (replace_all (element_re ''style'') (asc '' '')
                             (replace_all (element_re ''script'') (asc '' '') page)))))));
             selected = select_content contentSelectors cleanedContent;
             mainContent = (if selected = [] then cleanedContent else selected)
         in cleanHTML (trim (replace_all spaces_re (asc '' '')
              (replace_all tag_re (asc '' '') mainContent)))))"

section \<open>The web research pipeline\<close>

text \<open>What \<open>fetchPageContent\<close> resolves with.\<close>

record page =
  page_url :: jsstring
  page_content :: "jsstring option"
  page_error :: "jsstring option"

definition page_title_re :: pattern where
  "page_title_re = re_i (seq [str ''<title'', Star True (none_of ''>''), str ''>'',
     Group 1 (Star False Dot), str ''</title>''])"

text \<open>
  \<open>fetchPageContent\<close>. The inner \<open>try\<close> around \<open>extractMainContent\<close> cannot catch
  anything, as that function does not throw, so its \<open>catch\<close> has no branch here.
\<close>

definition fetchPageContent :: "transport \<Rightarrow> jsstring \<Rightarrow> page" where
  "fetchPageContent tr address =
     (case outcome (makeRequest tr address \<lparr>timeout = Some 15000, retries = Some (Num 1)\<rparr>) of
        Inl e \<Rightarrow> \<lparr>page_url = address, page_content = None, page_error = Some (exn_message e)\<rparr>
      | Inr html \<Rightarrow>
          (let extracted = extractMainContent html;
               pageTitle = (case match_first page_title_re html of
                              Some titleMatch \<Rightarrow> cleanHTML (capture 1 titleMatch)
                            | None \<Rightarrow> [])
           in \<lparr>page_url = address,
               page_content = Some (if extracted \<noteq> [] then extracted
                  else asc ''[No content extracted. Page title: '' @ pageTitle @ asc '']''),
               page_error = None\<rparr>))"

text \<open>
  \<open>Promise.allSettled\<close>. Each promise settles on its own (\<open>Inl\<close> a rejection, \<open>Inr\<close> a
  value); when it does, its outcome is written into its own slot of the array of values,
  and the array is the result once every slot is filled. The promises settle in some
  order: \<open>timing i\<close> is when promise \<open>i\<close> settles, and the writes happen in that order.
\<close>

datatype 'a settled = Fulfilled 'a | RejectedWith exn

fun settle :: "exn + 'a \<Rightarrow> 'a settled" where
  "settle (Inl reason) = RejectedWith reason"
| "settle (Inr v) = Fulfilled v"

definition completion_order :: "(nat \<Rightarrow> nat) \<Rightarrow> nat \<Rightarrow> nat list" where
  "completion_order timing n = sort_key timing [0..<n]"

definition write_slot :: "(exn + 'a) list \<Rightarrow> 'a settled option list \<Rightarrow> nat \<Rightarrow> 'a settled option list" where
  "write_slot promises slots i = slots[i := Some (settle (promises ! i))]"

definition allSettled :: "(nat \<Rightarrow> nat) \<Rightarrow> (exn + 'a) list \<Rightarrow> 'a settled list option" where
  "allSettled timing promises =
     those (foldl (write_slot promises) (replicate (length promises) None)
              (completion_order timing (length promises)))"

text \<open>\<open>String(reason)\<close> for an error: its name, a colon and its message.\<close>

definition exn_string :: "exn \<Rightarrow> jsstring" where
  "exn_string e =
     (if exn_message e = [] then exn_name e
      else if exn_name e = [] then exn_message e
      else exn_name e @ asc '': '' @ exn_message e)"

text \<open>The callback of \<open>resultsToProcess.map\<close> in \<open>webSearch\<close>.\<close>

fun content_result :: "SearchResult \<Rightarrow> page settled \<Rightarrow> ContentResult" where
  "content_result r (Fulfilled v) =
     SearchResult.extend r (ContentResult.fields (page_content v) (page_error v))"
| "content_result r (RejectedWith reason) =
     SearchResult.extend r
       (ContentResult.fields None (Some (asc ''Failed to fetch content: '' @ exn_string reason)))"

declare content_result.simps [simp del]

text \<open>
  The requests of one run of \<open>webSearch\<close>: the search, and the page of the result at each
  index. The network gives each its transport.
\<close>

datatype request = SearchRequest | PageRequest nat

type_synonym network = "request \<Rightarrow> transport"

text \<open>An optional string as a condition, and \<open>a || b\<close> on strings.\<close>

definition truthy :: "jsstring option \<Rightarrow> bool" where
  "truthy s = (s \<noteq> None \<and> s \<noteq> Some [])"

definition or_else :: "jsstring option \<Rightarrow> jsstring \<Rightarrow> jsstring" where
  "or_else s d = (case s of None \<Rightarrow> d | Some t \<Rightarrow> if t = [] then d else t)"

text \<open>
  \<open>webSearch\<close>. \<open>None\<close> stands for a run that never returns, which is what awaiting
  \<open>Promise.allSettled\<close> would do if a slot stayed empty. Nothing in the \<open>try\<close> block
  throws, so the outer \<open>catch\<close> has no branch.
\<close>

definition webSearch ::
    "network \<Rightarrow> (jsstring \<Rightarrow> exn + jsstring) \<Rightarrow> (nat \<Rightarrow> nat) \<Rightarrow> jsstring \<Rightarrow> ContentResponse option" where
  "webSearch net hostname timing q =
     (let searchResults = searchDuckDuckGo (net SearchRequest) hostname q in
      if truthy (search_error searchResults) \<or> length (search_results searchResults) = 0 then
        Some \<lparr>query = q, results = [],
          response_error =
            Some (or_else (search_error searchResults) (asc ''No search results found''))\<rparr>
      else
        (let resultsToProcess = take 5 (search_results searchResults) in
         case allSettled timing
                (map (\<lambda>(index, r). Inr (fetchPageContent (net (PageRequest index)) (url r)))
                   (enumerate 0 resultsToProcess)) of
           None \<Rightarrow> None
         | Some settledPromises \<Rightarrow>
             Some \<lparr>query = q,
               results = map (\<lambda>(index, r). content_result r (settledPromises ! index))
                           (enumerate 0 resultsToProcess),
               response_error = None\<rparr>))"

text \<open>The results of a run whose search found \<open>found\<close>: the first five, each with the
  outcome of the fetch of its own page.\<close>

definition processed :: "network \<Rightarrow> SearchResult list \<Rightarrow> ContentResult list" where
  "processed net found =
     map (\<lambda>(index, r).
            content_result r (Fulfilled (fetchPageContent (net (PageRequest index)) (url r))))
       (enumerate 0 (take 5 found))"

section \<open>A concrete run\<close>

text \<open>
  A stand-in for \<open>new URL(s).hostname\<close> in concrete runs: it reads the host of a
  lower-case \<open>http\<close> or \<open>https\<close> URL without user, password or port, where the
  platform returns the same, and throws on every other string.
\<close>

definition plain_url_re :: pattern where
  "plain_url_re = re (seq [Bol, str ''http'', opt (str ''s''), str ''://'',
     Group 1 (plus True (Cls False [(45, 46), (48, 57), (97, 122)])), Alt (str ''/'') Eol])"

definition plain_hostname :: "jsstring \<Rightarrow> exn + jsstring" where
  "plain_hostname s =
     (case match_first plain_url_re s of
        Some m \<Rightarrow> Inr (capture 1 m)
      | None \<Rightarrow> Inl \<lparr>is_DOMException = False, exn_name = asc ''TypeError'',
                  exn_message = asc ''Invalid URL''\<rparr>)"

text \<open>A result page with two result blocks: the first has a display URL and no snippet,
  the second a snippet and no display URL.\<close>

definition two_results_html :: jsstring where
  \<open>two_results_html = asc (''<div class="serp__results">'' @
     ''<div class="result results_links results_links_deep web-result">'' @
     ''<a rel="nofollow" class="result__a" href="//duckduckgo.com/l/?uddg=https%3A%2F%2Fa.example%2Flima&amp;rut=1">Lima</a>'' @
     ''<a class="result__url" href="#"> a.example/lima </a><div class="clear"></div></div>'' @
     ''<div class="result results_links results_links_deep web-result">'' @
     ''<a rel="nofollow" class="result__a" href="//duckduckgo.com/l/?uddg=https%3A%2F%2Fb.example%2F">Peru &amp; Lima</a>'' @
     ''<a class="result__snippet" href="#">The <b>capital</b> of Peru</a><div class="clear"></div></div>'' @
     ''<div class="nav-link">'')\<close>

text \<open>A network: the search answers with that page at once, the page of the first
  result is fetched by the transport given, the page of every other result is a small
  document. In \<open>demo_net\<close> the first page cannot be reached; in \<open>silent_net\<close> its fetch
  fails with an error whose message is empty.\<close>

definition lima_html :: jsstring where
  "lima_html = asc ''<html><head><title>Peru</title></head><body><main>Lima is the capital.</main></body></html>''"

fun net_with :: "transport \<Rightarrow> network" where
  "net_with first SearchRequest = (\<lambda>address attempt. Responded 200 (Inr two_results_html))"
| "net_with first (PageRequest index) =
     (if index = 0 then first else (\<lambda>address attempt. Responded 200 (Inr lima_html)))"

declare net_with.simps [simp del]

definition demo_net :: network where
  "demo_net = net_with always_unreachable"

definition always_silent :: transport where
  "always_silent address attempt = Rejected (Error [])"

definition silent_net :: network where
  "silent_net = net_with always_silent"

definition demo_query :: jsstring where
  "demo_query = asc ''capital of Peru''"

text \<open>The second page settles before the first.\<close>

definition demo_timing :: "nat \<Rightarrow> nat" where
  "demo_timing index = 5 - index"

definition demo_response :: ContentResponse where
  "demo_response =
     \<lparr>query = demo_query,
      results =
        [\<lparr>title = asc ''Lima'', url = asc ''https://a.example/lima'',
          displayUrl = asc ''a.example/lima'', snippet = [],
          content = None, error = Some (asc ''fetch failed'')\<rparr>,
         \<lparr>title = asc ''Peru & Lima'', url = asc ''https://b.example/'',
          displayUrl = asc ''b.example'', snippet = asc ''The capital of Peru'',
          content = Some (asc ''Lima is the capital.''), error = None\<rparr>],
      response_error = None\<rparr>"

definition silent_response :: ContentResponse where
  "silent_response =
     \<lparr>query = demo_query,
      results =
        [\<lparr>title = asc ''Lima'', url = asc ''https://a.example/lima'',
          displayUrl = asc ''a.example/lima'', snippet = [],
          content = None, error = Some []\<rparr>,
         \<lparr>title = asc ''Peru & Lima'', url = asc ''https://b.example/'',
          displayUrl = asc ''b.example'', snippet = asc ''The capital of Peru'',
          content = Some (asc ''Lima is the capital.''), error = None\<rparr>],
      response_error = None\<rparr>"

text \<open>A page that only the alternative patterns can read, a page that none can, and the
  transports that answer with them.\<close>

definition loose_html :: jsstring where
  \<open>loose_html = asc (''<h2 class="result__title">'' @
     ''<a rel="nofollow" class="result__a" href="/l/?uddg=https%3A%2F%2Fc.example%2F&amp;r=1">Cusco</a></h2>'' @
     ''<a class="result__snippet" href="#">A city</a>'')\<close>

definition loose_transport :: transport where
  "loose_transport address attempt = Responded 200 (Inr loose_html)"

definition empty_transport :: transport where
  "empty_transport address attempt = Responded 200 (Inr (asc ''<html></html>''))"

text \<open>The blocks of a result page that \<open>extractDDGResults\<close> goes through.\<close>

definition blocks_of :: "jsstring \<Rightarrow> jsstring list" where
  "blocks_of html =
     (case match_first serp_re html of
        None \<Rightarrow> []
      | Some resultsMatch \<Rightarrow> match_all block_re (capture 1 resultsMatch))"

text \<open>A block with a title, a display URL and no snippet, whose link holds a \<open>%\<close> that
  is no escape; and a result page with that block alone.\<close>

definition bad_escape_block :: jsstring where
  \<open>bad_escape_block = asc (''<div class="result results_links results_links_deep web-result">'' @
     ''<a rel="nofollow" class="result__a" href="//duckduckgo.com/l/?uddg=100%">Lima</a>'' @
     ''<a class="result__url" href="#">a.example</a><div class="clear"></div>'')\<close>

definition bad_escape_html :: jsstring where
  \<open>bad_escape_html =
     asc ''<div class="serp__results">'' @ bad_escape_block @ asc ''</div><div class="nav-link">''\<close>

text \<open>The two blocks of \<open>two_results_html\<close>.\<close>

definition lima_block :: jsstring where
  \<open>lima_block = asc (''<div class="result results_links results_links_deep web-result">'' @
     ''<a rel="nofollow" class="result__a" href="//duckduckgo.com/l/?uddg=https%3A%2F%2Fa.example%2Flima&amp;rut=1">Lima</a>'' @
     ''<a class="result__url" href="#"> a.example/lima </a><div class="clear"></div>'')\<close>

definition peru_block :: jsstring where
  \<open>peru_block = asc (''<div class="result results_links results_links_deep web-result">'' @
     ''<a rel="nofollow" class="result__a" href="//duckduckgo.com/l/?uddg=https%3A%2F%2Fb.example%2F">Peru &amp; Lima</a>'' @
     ''<a class="result__snippet" href="#">The <b>capital</b> of Peru</a><div class="clear"></div>'')\<close>

section \<open>The message store reader\<close>

subsection \<open>\<open>normalizePhoneNumber\<close>\<close>

text \<open>The patterns \<open>/[^0-9+]/g\<close>, \<open>/^\+1\d{10}$/\<close>, \<open>/^1\d{10}$/\<close> and \<open>/^\d{10}$/\<close>;
  \<open>\d{10}\<close> is ten times \<open>\d\<close>.\<close>

definition not_phone_char_re :: pattern where
  "not_phone_char_re = re (Cls True [(48, 57), (43, 43)])"

definition plus_one_ten_re :: pattern where
  "plus_one_ten_re = re (seq [Bol, str ''+1'', digit, digit, digit, digit, digit,
     digit, digit, digit, digit, digit, Eol])"

definition one_ten_re :: pattern where
  "one_ten_re = re (seq [Bol, str ''1'', digit, digit, digit, digit, digit,
     digit, digit, digit, digit, digit, Eol])"

definition ten_re :: pattern where
  "ten_re = re (seq [Bol, digit, digit, digit, digit, digit,
     digit, digit, digit, digit, digit, Eol])"

text \<open>\<open>s.startsWith(prefix)\<close>.\<close>

definition startsWith :: "jsstring \<Rightarrow> jsstring \<Rightarrow> bool" where
  "startsWith s prefix = (take (length prefix) s = prefix)"

text \<open>The set of formats holds one string in every branch, so \<open>Array.from\<close> gives a
  list of one element.\<close>

definition normalizePhoneNumber :: "jsstring \<Rightarrow> jsstring list" where
  "normalizePhoneNumber phone =
     (let cleaned = replace_all not_phone_char_re [] phone in
      if test plus_one_ten_re cleaned then [cleaned]
      else if test one_ten_re cleaned then [asc ''+'' @ cleaned]
      else if test ten_re cleaned then [asc ''+1'' @ cleaned]
      else if startsWith cleaned (asc ''+1'') then [cleaned]
      else if startsWith cleaned (asc ''1'') then [asc ''+'' @ cleaned]
      else [asc ''+1'' @ cleaned])"

text \<open>
  What the claims say of the cleaning. \<open>is_digit\<close> and \<open>phone_chars\<close> describe what the
  code keeps: every digit and every \<open>+\<close>. \<open>leading_plus_only\<close> follows the words of the
  specification instead: the digits, and a \<open>+\<close> only where it leads.
\<close>

definition is_digit :: "nat \<Rightarrow> bool" where
  "is_digit c = (48 \<le> c \<and> c \<le> 57)"

definition phone_chars :: "jsstring \<Rightarrow> jsstring" where
  "phone_chars phone = filter (\<lambda>c. is_digit c \<or> c = 43) phone"

definition leading_plus_only :: "jsstring \<Rightarrow> jsstring" where
  "leading_plus_only phone =
     (case phone_chars phone of [] \<Rightarrow> [] | c # cs \<Rightarrow> c # filter is_digit cs)"

subsection \<open>\<open>decodeAttributedBody\<close>\<close>

text \<open>
  \<open>Buffer.from(hexString, 'hex')\<close>: the bytes of the pairs of hexadecimal digits. Of each
  code unit only the low 8 bits are read, so a code unit above 255 counts as the character
  of its low byte. The bytes end before the first pair that is not two hexadecimal
  digits; a last single character is left out.
\<close>

fun hex_bytes :: "jsstring \<Rightarrow> nat list" where
  "hex_bytes (a # b # s) =
     (case (hex_value (a mod 256), hex_value (b mod 256)) of
        (Some h, Some l) \<Rightarrow> (16 * h + l) # hex_bytes s
      | _ \<Rightarrow> [])"
| "hex_bytes s = []"

text \<open>
  \<open>buffer.toString()\<close>: the UTF-8 decoder of the Encoding standard. Bytes that do not
  continue a well-formed sequence end it with one U+FFFD and are read again; a code point
  above U+FFFF becomes a surrogate pair.
\<close>

definition continuation :: "nat \<Rightarrow> bool" where
  "continuation b = (128 \<le> b \<and> b \<le> 191)"

text \<open>The range of the second byte after a first byte of a sequence of 3 or 4 bytes.\<close>

definition second_ok :: "nat \<Rightarrow> nat \<Rightarrow> bool" where
  "second_ok first b =
     ((if first = 224 then 160 else if first = 240 then 144 else 128) \<le> b \<and>
      b \<le> (if first = 237 then 159 else if first = 244 then 143 else 191))"

fun utf8_decode :: "nat list \<Rightarrow> jsstring" where
  "utf8_decode [] = []"
| "utf8_decode (b # bs) =
     (if b < 128 then b # utf8_decode bs
      else if 194 \<le> b \<and> b \<le> 223 then
        (case bs of
           [] \<Rightarrow> [65533]
         | c # cs \<Rightarrow>
             if continuation c then ((b - 192) * 64 + (c - 128)) # utf8_decode cs
             else 65533 # utf8_decode bs)
      else if 224 \<le> b \<and> b \<le> 239 then
        (case bs of
           [] \<Rightarrow> [65533]
         | c # cs \<Rightarrow>
             if second_ok b c then
               (case cs of
                  [] \<Rightarrow> [65533]
                | d # ds \<Rightarrow>
                    if continuation d
                    then ((b - 224) * 4096 + (c - 128) * 64 + (d - 128)) # utf8_decode ds
                    else 65533 # utf8_decode cs)
             else 65533 # utf8_decode bs)
      else if 240 \<le> b \<and> b \<le> 244 then
        (case bs of
           [] \<Rightarrow> [65533]
         | c # cs \<Rightarrow>
             if second_ok b c then
               (case cs of
                  [] \<Rightarrow> [65533]
                | d # ds \<Rightarrow>
                    if continuation d then
                      (case ds of
                         [] \<Rightarrow> [65533]
                       | e # es \<Rightarrow>
                           if continuation e
                           then utf16_encode ((b - 240) * 262144 + (c - 128) * 4096 +
                                  (d - 128) * 64 + (e - 128)) @ utf8_decode es
                           else 65533 # utf8_decode ds)
                    else 65533 # utf8_decode cs)
             else 65533 # utf8_decode bs)
      else 65533 # utf8_decode bs)"

declare utf8_decode.simps [simp del]

text \<open>The patterns tried for the text, in order, and those tried for a URL.\<close>

definition url_chars :: regex where
  "url_chars = plus True (Cls True (space_ranges @ [(34, 34), (60, 60)]))"

definition patterns :: "pattern list" where
  \<open>patterns =
     [re (seq [str ''NSString">'', Group 1 (Star False Dot), str ''<'']),
      re (seq [str ''NSString">'', Group 1 (plus True (none_of ''<''))]),
      re (seq [str ''NSNumber">'', plus True digit, str ''<'', Star False Dot,
               str ''NSString">'', Group 1 (Star False Dot), str ''<'']),
      re (seq [str ''NSArray">'', Star False Dot, str ''NSString">'',
               Group 1 (Star False Dot), str ''<'']),
      re (seq [str ''"string":'', Star True space, str ''"'',
               Group 1 (plus True (Cls True [(34, 34)])), str ''"'']),
      re (seq [str ''text'', Star True (none_of ''>''), str ''>'', Group 1 (Star False Dot),
               str ''<'']),
      re (seq [str ''message>'', Group 1 (Star False Dot), str ''<''])]\<close>

definition urlPatterns :: "pattern list" where
  \<open>urlPatterns =
     [re (seq [Group 1 (seq [str ''http'', opt (str ''s''), str ''://'', url_chars])]),
      re (seq [str ''NSString">'',
               Group 1 (seq [str ''http'', opt (str ''s''), str ''://'', url_chars])]),
      re (seq [str ''"url":'', Star True space, str ''"'',
               Group 1 (seq [str ''http'', opt (str ''s''), str ''://'',
                 plus True (Cls True [(34, 34)])]), str ''"'']),
      re (seq [str ''link'', Star True (none_of ''>''), str ''>'',
               Group 1 (seq [str ''http'', opt (str ''s''), str ''://'',
                 plus True (none_of ''<'')])])]\<close>

text \<open>\<open>match?.[1]\<close> as a condition: the first group of the first match, when there is a
  match and the group is not empty.\<close>

definition found :: "pattern \<Rightarrow> jsstring \<Rightarrow> jsstring option" where
  "found p s =
     (case match_first p s of
        None \<Rightarrow> None
      | Some m \<Rightarrow> (case group 1 m of None \<Rightarrow> None | Some g \<Rightarrow> if g = [] then None else Some g))"

text \<open>The loop over the text patterns: \<open>text\<close> is the variable of that name. A match sets
  it; the loop ends at a match longer than 5.\<close>

fun text_loop :: "pattern list \<Rightarrow> jsstring \<Rightarrow> jsstring \<Rightarrow> jsstring" where
  "text_loop [] s text = text"
| "text_loop (p # ps) s text =
     (case found p s of
        None \<Rightarrow> text_loop ps s text
      | Some g \<Rightarrow> if 5 < length g then g else text_loop ps s g)"

fun url_loop :: "pattern list \<Rightarrow> jsstring \<Rightarrow> jsstring option" where
  "url_loop [] s = None"
| "url_loop (p # ps) s = (case found p s of None \<Rightarrow> url_loop ps s | Some g \<Rightarrow> Some g)"

text \<open>The generic cleanup, and the cleanup of the text found.\<close>

definition readable :: "jsstring \<Rightarrow> jsstring" where
  "readable s =
     trim (replace_all spaces_re (asc '' '')
       (replace_all (re (Cls True [(32, 126)])) (asc '' '')
         (replace_all (re (seq [str ''NSNumber'', Star False Dot, str ''NSValue'',
                                Star False Dot, str ''*''])) []
           (replace_all (re (seq [str ''+'', plus True (Cls False [(65, 90), (97, 122)]),
                                  space])) []
             (replace_all (re (seq [str ''NSDictionary'', Star False Dot, Eol])) []
               (replace_all (re (seq [str ''NSAttributedString'', Star False Dot,
                                      str ''NSString''])) []
                 (replace_all (re (seq [str ''streamtyped'', Star False Dot,
                                        str ''NSString''])) [] s)))))))"

definition tidy :: "jsstring \<Rightarrow> jsstring" where
  "tidy text =
     trim (replace_all spaces_re (asc '' '')
       (replace_first (re (seq [Star True space, str ''iI'', Star True space,
                                Cls False [(65, 90)], Star True space, Eol])) []
         (replace_first (re (seq [Bol, plus True (Cls False ((43, 43) # space_ranges))])) []
            text)))"

record decoded =
  decoded_text :: jsstring
  decoded_url :: "jsstring option"

definition not_readable :: jsstring where
  "not_readable = asc ''[Message content not readable]''"

text \<open>
  \<open>decodeAttributedBody\<close>. Its body is one \<open>try\<close> block; no operation in it throws on a
  string, so the \<open>catch\<close>, which returns the same placeholder, has no branch here.
\<close>

definition decode_content :: "jsstring \<Rightarrow> decoded" where
  "decode_content s =
     (let text = text_loop patterns s [];
          link = url_loop urlPatterns s
      in if text = [] \<and> link = None then
           (if 5 < length (readable s)
            then \<lparr>decoded_text = or_else (Some (tidy (readable s))) [], decoded_url = None\<rparr>
            else \<lparr>decoded_text = not_readable, decoded_url = None\<rparr>)
         else
           \<lparr>decoded_text = or_else (Some (if text = [] then [] else tidy text)) (or_else link []),
            decoded_url = link\<rparr>)"

definition decodeAttributedBody :: "jsstring \<Rightarrow> decoded" where
  "decodeAttributedBody hexString = decode_content (utf8_decode (hex_bytes hexString))"

subsection \<open>Reading messages\<close>

text \<open>A row of the query, as \<open>JSON.parse\<close> gives it, and a message as it is returned.\<close>

record row =
  message_id :: int
  row_content :: "jsstring option"
  row_date :: "jsstring option"
  row_sender :: jsstring
  row_is_from_me :: int
  is_audio_message :: int
  cache_has_attachments :: int
  row_subject :: "jsstring option"
  content_type :: int

record Message =
  msg_content :: jsstring
  msg_date :: jsstring
  msg_sender :: jsstring
  msg_is_from_me :: bool
  msg_attachments :: "jsstring list option"
  msg_url :: "jsstring option"

text \<open>
  What lies outside the program: whether the database can be read (after the retries of
  the check), the rows each query gives (\<open>Inl\<close> when running it or parsing its output
  throws), the file names the attachment query gives for a message (\<open>None\<close> for a null),
  and \<open>new Date(d).toISOString()\<close>, which throws on a date that cannot be parsed.
\<close>

record store =
  db_access :: bool
  sender_rows :: "jsstring list \<Rightarrow> nat \<Rightarrow> exn + row list"
  unread_rows :: "nat \<Rightarrow> exn + row list"
  attachment_rows :: "int \<Rightarrow> exn + jsstring option list"
  toISOString :: "jsstring option \<Rightarrow> exn + jsstring"

text \<open>\<open>getAttachmentPaths\<close>: the file names that are not null or empty; no names when the
  query throws.\<close>

definition getAttachmentPaths :: "store \<Rightarrow> int \<Rightarrow> jsstring list" where
  "getAttachmentPaths db messageId =
     (case attachment_rows db messageId of
        Inl e \<Rightarrow> []
      | Inr names \<Rightarrow> concat (map (\<lambda>name. if truthy name then [or_else name []] else []) names))"

text \<open>The filter of the rows, and the pattern \<open>/(https?:\/\/[^\s]+)/\<close> for a URL in a plain
  text.\<close>

definition kept :: "row \<Rightarrow> bool" where
  "kept msg = (row_content msg \<noteq> None \<or> cache_has_attachments msg = 1)"

definition text_url_re :: pattern where
  "text_url_re = re (seq [Group 1 (seq [str ''http'', opt (str ''s''), str ''://'',
     plus True (Cls True space_ranges)])])"

text \<open>The text and the URL of a row: decoded from the attributed body when the row is of
  that type, else the text itself and the first URL in it.\<close>

definition text_and_url :: "row \<Rightarrow> jsstring \<times> jsstring option" where
  "text_and_url msg =
     (if content_type msg = 1 then
        (decoded_text (decodeAttributedBody (or_else (row_content msg) [])),
         decoded_url (decodeAttributedBody (or_else (row_content msg) [])))
      else
        (or_else (row_content msg) [],
         (case match_first text_url_re (or_else (row_content msg) []) of
            None \<Rightarrow> None
          | Some urlMatch \<Rightarrow> group 1 urlMatch)))"

text \<open>
  The callback of \<open>messages.filter(...).map\<close>. Only the conversion of the date can throw;
  \<open>formatted\<close> is the message the callback builds when the date converts to \<open>isoDate\<close>,
  and \<open>format_row\<close> is the callback: \<open>Inl\<close> when it throws.
\<close>

definition formatted :: "store \<Rightarrow> row \<Rightarrow> jsstring \<Rightarrow> Message" where
  "formatted db msg isoDate =
     (let text = fst (text_and_url msg);
          link = snd (text_and_url msg);
          files = (if cache_has_attachments msg \<noteq> 0
                   then getAttachmentPaths db (message_id msg) else []);
          titled = (if truthy (row_subject msg)
                    then asc ''Subject: '' @ or_else (row_subject msg) [] @ [10] @ text
                    else text)
      in \<lparr>msg_content =
            or_else (Some titled) (asc ''[No text content]'') @
            (if 0 < length files
             then [10] @ asc ''[Attachments: '' @ decimal (length files) @ asc '']''
             else []) @
            (if truthy link
             then [10] @ asc ''[URL: '' @ or_else link [] @ asc '']''
             else []),
          msg_date = isoDate,
          msg_sender = row_sender msg,
          msg_is_from_me = (row_is_from_me msg \<noteq> 0),
          msg_attachments = (if 0 < length files then Some files else None),
          msg_url = (if truthy link then link else None)\<rparr>)"

definition format_row :: "store \<Rightarrow> row \<Rightarrow> exn + Message" where
  "format_row db msg =
     (case toISOString db (row_date msg) of
        Inl e \<Rightarrow> Inl e
      | Inr isoDate \<Rightarrow> Inr (formatted db msg isoDate))"

text \<open>\<open>Promise.all\<close> over the callbacks: the messages in the order of the rows, or the
  first rejection.\<close>

fun all_or_first :: "(exn + 'a) list \<Rightarrow> exn + 'a list" where
  "all_or_first [] = Inr []"
| "all_or_first (Inl e # rs) = Inl e"
| "all_or_first (Inr v # rs) = (case all_or_first rs of Inl e \<Rightarrow> Inl e | Inr vs \<Rightarrow> Inr (v # vs))"

text \<open>What both readers do with the rows of their query; the \<open>catch\<close> around it all
  returns no messages.\<close>

definition format_rows :: "store \<Rightarrow> exn + row list \<Rightarrow> Message list" where
  "format_rows db queried =
     (case queried of
        Inl e \<Rightarrow> []
      | Inr messages \<Rightarrow>
          (case all_or_first (map (format_row db) (filter kept messages)) of
             Inl e \<Rightarrow> []
           | Inr processedMessages \<Rightarrow> processedMessages))"

definition readMessages :: "store \<Rightarrow> jsstring \<Rightarrow> nat \<Rightarrow> Message list" where
  "readMessages db phoneNumber limit =
     (if \<not> db_access db then []
      else format_rows db (sender_rows db (normalizePhoneNumber phoneNumber) limit))"

definition getUnreadMessages :: "store \<Rightarrow> nat \<Rightarrow> Message list" where
  "getUnreadMessages db limit =
     (if \<not> db_access db then [] else format_rows db (unread_rows db limit))"

subsection \<open>Concrete messages\<close>

text \<open>The captures of a list of patterns that are not empty, in the order of the
  patterns, and the first of them.\<close>

definition captured :: "pattern list \<Rightarrow> jsstring \<Rightarrow> jsstring list" where
  "captured ps s = List.map_filter (\<lambda>p. found p s) ps"

definition first_capture :: "pattern list \<Rightarrow> jsstring \<Rightarrow> jsstring option" where
  "first_capture ps s = (case captured ps s of [] \<Rightarrow> None | g # gs \<Rightarrow> Some g)"

text \<open>A body in which only the last text pattern captures, and what it captures is
  short; its bytes in hexadecimal, as the query gives them.\<close>

definition short_body :: jsstring where
  "short_body = asc ''message>Hi<''"

definition short_hex :: jsstring where
  "short_hex = asc ''6D6573736167653E48693C''"

text \<open>A body in which the first two patterns capture \<open>Hi\<close> and the fourth captures
  \<open>Hello there\<close>.\<close>

definition hello_body :: jsstring where
  \<open>hello_body = asc ''NSString">Hi<NSArray">NSString">Hello there<''\<close>

definition hello_hex :: jsstring where
  "hello_hex = asc (''4E53537472696E67223E48693C4E534172726179223E'' @
     ''4E53537472696E67223E48656C6C6F2074686572653C'')"

text \<open>Bodies without a marker: two letters, a sentence, and a URL.\<close>

definition hi_hex :: jsstring where
  "hi_hex = asc ''4869''"

definition plain_body :: jsstring where
  "plain_body = asc ''Hello world''"

definition plain_hex :: jsstring where
  "plain_hex = asc ''48656C6C6F20776F726C64''"

definition link_body :: jsstring where
  "link_body = asc ''https://a.example/x''"

definition link_hex :: jsstring where
  "link_hex = asc ''68747470733A2F2F612E6578616D706C652F78''"

text \<open>The hexadecimal digits of \<open>Hi\<close> with 256 added to each code unit.\<close>

definition wide_hex :: jsstring where
  "wide_hex = [308, 312, 310, 313]"

text \<open>
  A store with three rows without text: one with a photo, one whose attachment query
  gives no file name, one without attachments. The stand-in for the conversion of the
  date accepts every date.
\<close>

definition photo_row :: row where
  "photo_row = \<lparr>message_id = 7, row_content = None,
     row_date = Some (asc ''2024-05-01 10:00:00''), row_sender = asc ''+15551234567'',
     row_is_from_me = 0, is_audio_message = 0, cache_has_attachments = 1, row_subject = None,
     content_type = 2\<rparr>"

definition bare_row :: row where
  "bare_row = \<lparr>message_id = 8, row_content = None,
     row_date = Some (asc ''2024-05-01 09:00:00''), row_sender = asc ''+15551234567'',
     row_is_from_me = 0, is_audio_message = 0, cache_has_attachments = 1, row_subject = None,
     content_type = 2\<rparr>"

definition empty_row :: row where
  "empty_row = \<lparr>message_id = 9, row_content = None,
     row_date = Some (asc ''2024-05-01 08:00:00''), row_sender = asc ''+15551234567'',
     row_is_from_me = 0, is_audio_message = 0, cache_has_attachments = 0, row_subject = None,
     content_type = 2\<rparr>"

definition demo_date :: "row \<Rightarrow> jsstring" where
  "demo_date msg = or_else (row_date msg) (asc ''1970-01-01 00:00:00'')"

definition demo_store :: store where
  "demo_store = \<lparr>db_access = True,
     sender_rows = (\<lambda>formats limit.
        if formats = [asc ''+15551234567''] then Inr [photo_row, bare_row, empty_row] else Inr []),
     unread_rows = (\<lambda>limit. Inr [photo_row, bare_row, empty_row]),
     attachment_rows = (\<lambda>messageId.
        if messageId = 7 then Inr [Some (asc ''~/Library/Messages/Attachments/a.jpg''), None]
        else Inr []),
     toISOString = (\<lambda>d. Inr (or_else d (asc ''1970-01-01 00:00:00'')))\<rparr>"


section \<open>Properties of \<open>makeRequest\<close>\<close>

lemma is_abort_status_error: "\<not> is_abort (status_error status)"
  by (simp add: is_abort_def status_error_def Error_def)

lemma try_block_failure:
  "non_abort_failure f \<Longrightarrow> try_block f = Inl (failure_of f) \<and> \<not> is_abort (failure_of f)"
  by (cases f) (simp_all add: non_abort_failure_def is_abort_status_error)

lemma attempt_loop_retry:
  assumes "non_abort_failure (tr address attempt)" and "int attempt < budget"
  shows "attempt_loop tr address budget attempt lastError slept =
         attempt_loop tr address budget (Suc attempt) (Some (failure_of (tr address attempt)))
           (slept @ [1000 * 2 ^ attempt])"
  using assms try_block_failure [of "tr address attempt"]
  by (subst attempt_loop.simps) simp

lemma attempt_loop_last:
  assumes "non_abort_failure (tr address attempt)" and "int attempt = budget"
  shows "attempt_loop tr address budget attempt lastError slept =
         \<lparr>outcome = Inl (failure_of (tr address attempt)), attempts = Suc attempt, delays = slept\<rparr>"
  using assms try_block_failure [of "tr address attempt"]
  by (subst attempt_loop.simps) simp

text \<open>With a budget of 2 and three failing attempts the loop runs three times, sleeps
  1000 and 2000 milliseconds, and throws the third error.\<close>

lemma budget_two_run:
  assumes "non_abort_failure (tr address 0)" "non_abort_failure (tr address 1)"
    "non_abort_failure (tr address 2)"
  shows "attempt_loop tr address 2 0 None [] =
         \<lparr>outcome = Inl (failure_of (tr address 2)), attempts = 3, delays = [1000, 2000]\<rparr>"
proof -
  have "attempt_loop tr address 2 0 None [] =
        attempt_loop tr address 2 (Suc 0) (Some (failure_of (tr address 0))) [1000]"
    using attempt_loop_retry [of tr address 0 2 None "[]"] assms(1) by simp
  also have "\<dots> = attempt_loop tr address 2 (Suc (Suc 0))
                     (Some (failure_of (tr address (Suc 0)))) [1000, 2000]"
    using attempt_loop_retry [of tr address "Suc 0" 2 "Some (failure_of (tr address 0))" "[1000]"]
      assms(2) by simp
  also have "\<dots> = \<lparr>outcome = Inl (failure_of (tr address 2)), attempts = 3,
                     delays = [1000, 2000]\<rparr>"
    using attempt_loop_last [of tr address "Suc (Suc 0)" 2
        "Some (failure_of (tr address (Suc 0)))" "[1000, 2000]"] assms(3)
    by (simp add: numeral_2_eq_2 numeral_3_eq_3)
  finally show ?thesis .
qed

text \<open>An attempt that ends in an \<open>AbortError\<close> is the last one, whatever the budget.\<close>

lemma abort_error_ends_loop:
  assumes "try_block (tr address 0) = Inl e" and "is_abort e" and "0 \<le> retry_budget options"
  shows "makeRequest tr address options = \<lparr>outcome = Inl e, attempts = 1, delays = []\<rparr>"
  using assms unfolding makeRequest_def by (subst attempt_loop.simps) simp



text \<open>
  C10. When \<open>retries\<close> is 0, \<open>NaN\<close> or left out, \<open>options.retries || 2\<close> makes the budget
  2: it is never 0, and against a transport whose first three attempts fail without an
  abort \<open>makeRequest\<close> calls \<open>fetch\<close> 3 times.
\<close>

theorem makeRequest_falsy_retries_default:
  assumes "falsy (retries options)"
    and "\<forall>i<3. non_abort_failure (tr address i)"
  shows "retry_budget options = 2 \<and> attempts (makeRequest tr address options) = 3"
proof -
  have b: "retry_budget options = 2"
    using assms(1) by (cases "retries options" rule: falsy.cases) (simp_all add: retry_budget_def)
  have "makeRequest tr address options =
        \<lparr>outcome = Inl (failure_of (tr address 2)), attempts = 3, delays = [1000, 2000]\<rparr>"
    unfolding makeRequest_def b using assms(2) by (intro budget_two_run) simp_all
  with b show ?thesis by simp
qed

theorem makeRequest_falsy_retries_default_witness:
  "falsy (retries \<lparr>timeout = None, retries = Some (Num 0)\<rparr>) \<and>
   non_abort_failure (always_unreachable (asc ''https://example.org/'') 0) \<and>
   retry_budget \<lparr>timeout = None, retries = Some (Num 0)\<rparr> = 2 \<and>
   attempts (makeRequest always_unreachable (asc ''https://example.org/'')
     \<lparr>timeout = None, retries = Some (Num 0)\<rparr>) = 3"
proof -
  have f: "\<forall>i<3. non_abort_failure (always_unreachable (asc ''https://example.org/'') i)"
    by (simp add: non_abort_failure_def always_unreachable_def is_abort_def)
  have o: "falsy (retries \<lparr>timeout = None, retries = Some (Num 0)\<rparr>)"
    by simp
  show ?thesis
    using makeRequest_falsy_retries_default
      [of "\<lparr>timeout = None, retries = Some (Num 0)\<rparr>" always_unreachable
          "asc ''https://example.org/''", OF o f]
    by (simp add: non_abort_failure_def always_unreachable_def is_abort_def)
qed

text \<open>
  C2. The comment in the \<open>catch\<close> block says that an aborted request or a timeout is not
  retried, but the test names \<open>AbortError\<close> only, and the signal of
  \<open>AbortSignal.timeout\<close> rejects with a \<open>TimeoutError\<close>. Against a server that never
  answers in time, \<open>makeRequest\<close> with \<open>retries = 2\<close> calls \<open>fetch\<close> three times and
  sleeps between the attempts before it throws the timeout.
\<close>

theorem makeRequest_timeout_is_retried:
  "makeRequest always_times_out (asc ''https://example.org/'')
     \<lparr>timeout = Some 10000, retries = Some (Num 2)\<rparr> =
   \<lparr>outcome = Inl TimeoutError, attempts = 3, delays = [1000, 2000]\<rparr>"
  by (simp add: makeRequest_def retry_budget_def attempt_loop.simps is_abort_def
        always_times_out_def TimeoutError_def asc_def)


section \<open>Computing matches\<close>

text \<open>The steps of the matcher with its stack of alternatives. Each is an equation of
  \<open>run_or\<close> that follows from the definition of \<open>run\<close>.\<close>

lemma run_as_run_or: "run ic da k pos prev rest caps = run_or ic da k pos prev rest caps []"
  by (simp add: run_or_def alternatives.simps split: option.split)

lemma alternatives_Nil: "alternatives ic da [] = None"
  by (simp add: alternatives.simps)

lemma alternatives_Frame:
  "alternatives ic da (Frame k pos prev rest caps # bt) = run_or ic da k pos prev rest caps bt"
  by (simp add: run_or_def alternatives.simps)

lemma resume_True:
  "resume ic da True k pos prev rest caps bt = run_or ic da k pos prev rest caps bt"
  by (simp add: resume_def)

lemma resume_False: "resume ic da False k pos prev rest caps bt = alternatives ic da bt"
  by (simp add: resume_def)

lemma step_done: "run_or ic da [] pos prev rest caps bt = Some (pos, caps)"
  by (simp add: run_or_def run.simps)

lemma step_guard:
  "run_or ic da (Guard p # k) pos prev rest caps bt = resume ic da (p < pos) k pos prev rest caps bt"
  by (simp add: run_or_def resume_def run.simps)

lemma step_close:
  "run_or ic da (Close i s # k) pos prev rest caps bt =
   run_or ic da k pos prev rest ((i, s, pos) # caps) bt"
  by (simp add: run_or_def run.simps)

lemma step_lit_Nil:
  "run_or ic da (Re (Lit []) # k) pos prev rest caps bt = run_or ic da k pos prev rest caps bt"
  by (simp add: run_or_def run.simps)

lemma step_lit_end:
  "run_or ic da (Re (Lit (c # cs)) # k) pos prev [] caps bt = alternatives ic da bt"
  by (simp add: run_or_def run.simps)

lemma step_lit:
  "run_or ic da (Re (Lit (c # cs)) # k) pos prev (x # xs) caps bt =
   resume ic da (canon ic x = canon ic c) (Re (Lit cs) # k) (pos + 1) (Some x) xs caps bt"
  by (simp add: run_or_def resume_def run.simps)

lemma step_cls_end:
  "run_or ic da (Re (Cls negated rs) # k) pos prev [] caps bt = alternatives ic da bt"
  by (simp add: run_or_def run.simps)

lemma step_cls:
  "run_or ic da (Re (Cls negated rs) # k) pos prev (x # xs) caps bt =
   resume ic da (cls_match ic negated rs x) k (pos + 1) (Some x) xs caps bt"
  by (simp add: run_or_def resume_def run.simps)

lemma step_dot_end:
  "run_or ic da (Re Dot # k) pos prev [] caps bt = alternatives ic da bt"
  by (simp add: run_or_def run.simps)

lemma step_dot:
  "run_or ic da (Re Dot # k) pos prev (x # xs) caps bt =
   resume ic da (da \<or> \<not> line_terminator x) k (pos + 1) (Some x) xs caps bt"
  by (simp add: run_or_def resume_def run.simps)

lemma step_bol:
  "run_or ic da (Re Bol # k) pos prev rest caps bt = resume ic da (pos = 0) k pos prev rest caps bt"
  by (simp add: run_or_def resume_def run.simps)

lemma step_eol:
  "run_or ic da (Re Eol # k) pos prev [] caps bt = run_or ic da k pos prev [] caps bt"
  by (simp add: run_or_def run.simps)

lemma step_eol_fail:
  "run_or ic da (Re Eol # k) pos prev (x # xs) caps bt = alternatives ic da bt"
  by (simp add: run_or_def run.simps)

lemma step_wordb_start_end:
  "run_or ic da (Re WordB # k) pos None [] caps bt = alternatives ic da bt"
  by (simp add: run_or_def run.simps)

lemma step_wordb_start:
  "run_or ic da (Re WordB # k) pos None (x # xs) caps bt =
   resume ic da (word_char x) k pos None (x # xs) caps bt"
  by (simp add: run_or_def resume_def run.simps)

lemma step_wordb_end:
  "run_or ic da (Re WordB # k) pos (Some p) [] caps bt =
   resume ic da (word_char p) k pos (Some p) [] caps bt"
  by (simp add: run_or_def resume_def run.simps)

lemma step_wordb:
  "run_or ic da (Re WordB # k) pos (Some p) (x # xs) caps bt =
   resume ic da (word_char p \<noteq> word_char x) k pos (Some p) (x # xs) caps bt"
  by (simp add: run_or_def resume_def run.simps)

lemma step_seq:
  "run_or ic da (Re (Seq a b) # k) pos prev rest caps bt =
   run_or ic da (Re a # Re b # k) pos prev rest caps bt"
  by (simp add: run_or_def run.simps)

lemma step_alt:
  "run_or ic da (Re (Alt a b) # k) pos prev rest caps bt =
   run_or ic da (Re a # k) pos prev rest caps (Frame (Re b # k) pos prev rest caps # bt)"
  by (simp add: run_or_def run.simps alternatives.simps split: option.split)

lemma step_star_greedy:
  "run_or ic da (Re (Star True r) # k) pos prev rest caps bt =
   run_or ic da (Re r # Guard pos # Re (Star True r) # k) pos prev rest caps
     (Frame k pos prev rest caps # bt)"
  by (simp add: run_or_def run.simps alternatives.simps split: option.split)

lemma step_star_lazy:
  "run_or ic da (Re (Star False r) # k) pos prev rest caps bt =
   run_or ic da k pos prev rest caps
     (Frame (Re r # Guard pos # Re (Star False r) # k) pos prev rest caps # bt)"
  by (simp add: run_or_def run.simps alternatives.simps split: option.split)

lemma step_group:
  "run_or ic da (Re (Group i r) # k) pos prev rest caps bt =
   run_or ic da (Re r # Close i pos # k) pos prev rest caps bt"
  by (simp add: run_or_def run.simps)

lemma step_neglook:
  "run_or ic da (Re (NegLook r) # k) pos prev rest caps bt =
   (case run_or ic da [Re r] pos prev rest caps [] of
      Some m \<Rightarrow> alternatives ic da bt
    | None \<Rightarrow> run_or ic da k pos prev rest caps bt)"
  by (simp add: run_or_def run.simps alternatives.simps split: option.split)

lemmas machine_steps = alternatives_Nil alternatives_Frame resume_True resume_False step_done
  step_guard step_close step_lit_Nil step_lit_end step_lit step_cls_end step_cls step_dot_end
  step_dot step_bol step_eol step_eol_fail step_wordb_start_end step_wordb_start step_wordb_end
  step_wordb step_seq step_alt step_star_greedy step_star_lazy step_group step_neglook

text \<open>The searches over the positions of an input: each attempt is made by the matcher,
  and the search goes on from its outcome.\<close>

lemma match_at_step:
  "match_at \<lparr>tree = r, ignoreCase = ic, dotAll = da\<rparr> pos prev rest =
   match_result pos rest (run_or ic da [Re r] pos prev rest [] [])"
  by (simp add: match_at_def match_result_def run_as_run_or)

lemma match_result_None: "match_result pos rest None = None"
  by (simp add: match_result_def)

lemma match_result_Some:
  "match_result pos rest (Some (e, caps)) =
   Some (e, take (e - pos) rest, map (\<lambda>(i, s, t). (i, slice rest (s - pos) (t - pos))) caps)"
  by (simp add: match_result_def)

lemma exec_from_step:
  "exec_from p pos prev rest = exec_result p pos prev rest (match_at p pos prev rest)"
  by (subst exec_from.simps) (simp add: exec_result_def)

lemma exec_result_Some: "exec_result p pos prev rest (Some (e, m)) = Some m"
  by (simp add: exec_result_def)

lemma exec_result_None_Nil: "exec_result p pos prev [] None = None"
  by (simp add: exec_result_def)

lemma exec_result_None_Cons:
  "exec_result p pos prev (x # xs) None = exec_from p (pos + 1) (Some x) xs"
  by (simp add: exec_result_def)

lemma scan_step:
  "scan p pos prev 0 rest = scan_result p pos prev rest (match_at p pos prev rest)"
  by (subst scan.simps) (simp add: scan_result_def)

lemma scan_skip_Nil: "0 < skip \<Longrightarrow> scan p pos prev skip [] = []"
  by (subst scan.simps) simp

lemma scan_skip_1: "scan p pos prev 1 (x # xs) = scan p (pos + 1) (Some x) 0 xs"
  by (subst scan.simps) simp

lemma scan_skip_Suc: "scan p pos prev (Suc n) (x # xs) = scan p (pos + 1) (Some x) n xs"
  by (subst scan.simps) simp

lemma scan_skip_numeral:
  "scan p pos prev (numeral n) (x # xs) = scan p (pos + 1) (Some x) (pred_numeral n) xs"
  by (subst scan.simps) (simp add: numeral_eq_Suc)

lemma scan_result_Some_Nil: "scan_result p pos prev [] (Some (e, m)) = [fst m]"
  by (simp add: scan_result_def)

lemma scan_result_Some_Cons:
  "scan_result p pos prev (x # xs) (Some (e, m)) =
   fst m # scan p (pos + 1) (Some x) (e - pos - 1) xs"
  by (simp add: scan_result_def)

lemma scan_result_None_Nil: "scan_result p pos prev [] None = []"
  by (simp add: scan_result_def)

lemma scan_result_None_Cons:
  "scan_result p pos prev (x # xs) None = scan p (pos + 1) (Some x) 0 xs"
  by (simp add: scan_result_def)

lemma substitute_step:
  "substitute p by pos prev 0 rest =
   substitute_result p by pos prev rest (match_at p pos prev rest)"
  by (subst substitute.simps) (simp add: substitute_result_def)

lemma substitute_skip_Nil: "0 < skip \<Longrightarrow> substitute p by pos prev skip [] = []"
  by (subst substitute.simps) simp

lemma substitute_skip_1:
  "substitute p by pos prev 1 (x # xs) = substitute p by (pos + 1) (Some x) 0 xs"
  by (subst substitute.simps) simp

lemma substitute_skip_Suc:
  "substitute p by pos prev (Suc n) (x # xs) = substitute p by (pos + 1) (Some x) n xs"
  by (subst substitute.simps) simp

lemma substitute_skip_numeral:
  "substitute p by pos prev (numeral n) (x # xs) =
   substitute p by (pos + 1) (Some x) (pred_numeral n) xs"
  by (subst substitute.simps) (simp add: numeral_eq_Suc)

lemma substitute_result_Some_Nil: "substitute_result p by pos prev [] (Some (e, m)) = by"
  by (simp add: substitute_result_def)

lemma substitute_result_Some_Cons:
  "substitute_result p by pos prev (x # xs) (Some (e, m)) =
   by @ (if e = pos then [x] else []) @ substitute p by (pos + 1) (Some x) (e - pos - 1) xs"
  by (simp add: substitute_result_def)

lemma substitute_result_None_Nil: "substitute_result p by pos prev [] None = []"
  by (simp add: substitute_result_def)

lemma substitute_result_None_Cons:
  "substitute_result p by pos prev (x # xs) None = x # substitute p by (pos + 1) (Some x) 0 xs"
  by (simp add: substitute_result_def)

lemma substitute_first_step:
  "substitute_first p by pos prev rest =
   substitute_first_result p by pos prev rest (match_at p pos prev rest)"
  by (subst substitute_first.simps) (simp add: substitute_first_result_def)

lemma substitute_first_result_Some:
  "substitute_first_result p by pos prev rest (Some (e, m)) = by @ drop (e - pos) rest"
  by (simp add: substitute_first_result_def)

lemma substitute_first_result_None_Nil: "substitute_first_result p by pos prev [] None = []"
  by (simp add: substitute_first_result_def)

lemma substitute_first_result_None_Cons:
  "substitute_first_result p by pos prev (x # xs) None =
   x # substitute_first p by (pos + 1) (Some x) xs"
  by (simp add: substitute_first_result_def)

text \<open>The rules that evaluate a pattern on a concrete string.\<close>

lemmas regex_eval = machine_steps match_at_step match_result_None match_result_Some
  exec_from_step exec_result_Some exec_result_None_Nil exec_result_None_Cons
  scan_step scan_skip_Nil scan_skip_1 scan_skip_Suc scan_skip_numeral scan_result_Some_Nil
  scan_result_Some_Cons scan_result_None_Nil scan_result_None_Cons
  substitute_step substitute_skip_Nil substitute_skip_1 substitute_skip_Suc substitute_skip_numeral
  substitute_result_Some_Nil substitute_result_Some_Cons substitute_result_None_Nil
  substitute_result_None_Cons substitute_first_step substitute_first_result_Some
  substitute_first_result_None_Nil substitute_first_result_None_Cons
  asc_def str_def one_of_def none_of_def seq_def plus_def opt_def space_def digit_def
  space_ranges_def in_ranges_def line_terminator_def word_char_def canon_def uncanon_def
  cls_match_def re_def re_s_def re_i_def slice_def match_first_def group_def test_def
  match_all_def replace_all_def replace_first_def trim_def


section \<open>Properties of the search result extractor\<close>

lemmas uri_eval = URIError_def hex_value_def hex_digit_def utf16_encode_def utf8_encode_def
  utf8_point_def escapes.simps sequence_length_def uri_decode.simps decodeURIComponent_def
  unreserved_def percent_def encodeURIComponent_def

lemmas extract_eval = tag_re_def spaces_re_def cleanHTML_def serp_re_def block_re_def
  title_re_def uddg_re_def display_url_re_def snippet_re_def displayUrl_of_def snippet_of_def
  result_of_block_def extractDDGResults_def links_re_def alt_title_re_def alt_uddg_re_def
  alt_snippet_re_def result_of_link_def extractDDGResultsAlternative_def capture_def Let_def

lemmas request_eval = makeRequest_def retry_budget_def attempt_loop.simps response_ok_def
  is_abort_def status_error_def Error_def

lemma block_results_length: "length (block_results hostname blocks) \<le> length blocks"
  by (induction blocks) (auto split: sum.splits option.splits)

lemma extractDDGResults_blocks_of:
  "extractDDGResults hostname html = block_results hostname (take 10 (blocks_of html))"
  by (simp add: extractDDGResults_def blocks_of_def Let_def min_def split: option.splits)

text \<open>The pages of the concrete run, read by the primary patterns.\<close>

lemma two_results_found:
  "extractDDGResults plain_hostname two_results_html =
     [\<lparr>title = asc ''Lima'', url = asc ''https://a.example/lima'',
       displayUrl = asc ''a.example/lima'', snippet = []\<rparr>,
      \<lparr>title = asc ''Peru & Lima'', url = asc ''https://b.example/'',
       displayUrl = asc ''b.example'', snippet = asc ''The capital of Peru''\<rparr>]"
  by (simp add: two_results_html_def plain_hostname_def plain_url_re_def regex_eval uri_eval
        extract_eval del: One_nat_def)

lemma loose_primary: "extractDDGResults plain_hostname loose_html = []"
  by (simp add: loose_html_def regex_eval extract_eval del: One_nat_def)

lemma loose_alternative:
  "extractDDGResultsAlternative plain_hostname loose_html =
     [\<lparr>title = asc ''Cusco'', url = asc ''https://c.example/'', displayUrl = asc ''c.example'',
       snippet = asc ''A city''\<rparr>]"
  by (simp add: loose_html_def plain_hostname_def plain_url_re_def regex_eval uri_eval
        extract_eval del: One_nat_def)

lemma empty_primary: "extractDDGResults plain_hostname (asc ''<html></html>'') = []"
  by (simp add: regex_eval extract_eval del: One_nat_def)

lemma empty_alternative: "extractDDGResultsAlternative plain_hostname (asc ''<html></html>'') = []"
  by (simp add: regex_eval extract_eval del: One_nat_def)

lemma bad_escape_blocks: "blocks_of bad_escape_html = [bad_escape_block]"
  by (simp add: blocks_of_def bad_escape_html_def bad_escape_block_def regex_eval
        serp_re_def block_re_def capture_def del: One_nat_def)

lemma bad_escape_title: "match_first title_re bad_escape_block \<noteq> None"
  by (simp add: bad_escape_block_def regex_eval title_re_def del: One_nat_def)

lemma bad_escape_uddg:
  \<open>match_first uddg_re bad_escape_block =
     Some (asc ''href="//duckduckgo.com/l/?uddg=100%"'', [(1, asc ''100%'')])\<close>
  by (simp add: bad_escape_block_def regex_eval uddg_re_def del: One_nat_def)

lemma bad_escape_display: "match_first display_url_re bad_escape_block \<noteq> None"
  by (simp add: bad_escape_block_def regex_eval display_url_re_def del: One_nat_def)

lemma bad_escape_snippet: "match_first snippet_re bad_escape_block = None"
  by (simp add: bad_escape_block_def regex_eval snippet_re_def del: One_nat_def)

lemma bad_escape_decode: "decodeURIComponent (asc ''100%'') = Inl URIError"
  by (simp add: uri_eval asc_def)

lemma bad_escape_result: "result_of_block plain_hostname bad_escape_block = Inl URIError"
proof -
  obtain t where t: "match_first title_re bad_escape_block = Some t"
    using bad_escape_title by blast
  show ?thesis
    by (simp add: result_of_block_def t bad_escape_uddg capture_def group_def
          bad_escape_decode)
qed

lemma peru_block_title:
  "match_first title_re peru_block \<noteq> None \<and>
   map_option (capture 1) (match_first title_re peru_block) = Some (asc ''Peru &amp; Lima'')"
  by (simp add: peru_block_def regex_eval title_re_def capture_def del: One_nat_def)

lemma peru_block_uddg:
  "map_option (capture 1) (match_first uddg_re peru_block) = Some (asc ''https%3A%2F%2Fb.example%2F'')"
  by (simp add: peru_block_def regex_eval uddg_re_def capture_def del: One_nat_def)

lemma peru_block_display: "match_first display_url_re peru_block = None"
  by (simp add: peru_block_def regex_eval display_url_re_def del: One_nat_def)

lemma peru_address:
  "decodeURIComponent (asc ''https%3A%2F%2Fb.example%2F'') = Inr (asc ''https://b.example/'')"
  by (simp add: uri_eval asc_def)

lemma peru_host: "plain_hostname (asc ''https://b.example/'') = Inr (asc ''b.example'')"
  by (simp add: plain_hostname_def plain_url_re_def regex_eval capture_def del: One_nat_def)

lemma lima_block_title: "match_first title_re lima_block \<noteq> None"
  by (simp add: lima_block_def regex_eval title_re_def del: One_nat_def)

lemma lima_block_uddg: "match_first uddg_re lima_block \<noteq> None"
  by (simp add: lima_block_def regex_eval uddg_re_def del: One_nat_def)

lemma lima_block_snippet: "match_first snippet_re lima_block = None"
  by (simp add: lima_block_def regex_eval snippet_re_def del: One_nat_def)

lemma lima_block_result:
  "result_of_block plain_hostname lima_block =
     Inr (Some \<lparr>title = asc ''Lima'', url = asc ''https://a.example/lima'',
       displayUrl = asc ''a.example/lima'', snippet = []\<rparr>)"
  by (simp add: lima_block_def regex_eval uri_eval extract_eval del: One_nat_def)

text \<open>
  C6, as the code has it. \<open>extractDDGResults\<close> returns at most 10 results, those of the
  first 10 blocks. A block whose title or URL pattern fails gives no result. A block where
  both match gives a result when its link can be percent-decoded and, if it has no display
  URL, the decoded link has a host name: the snippet is then the empty string when the
  snippet pattern fails, and the display URL is that host name when the display URL pattern
  fails. When the decoding or the host name throws, the block gives no result.
\<close>

theorem extractDDGResults_per_block:
  "length (extractDDGResults hostname html) \<le> 10 \<and>
   extractDDGResults hostname html = block_results hostname (take 10 (blocks_of html)) \<and>
   (match_first title_re block = None \<or> match_first uddg_re block = None \<longrightarrow>
      block_results hostname (block # blocks) = block_results hostname blocks) \<and>
   (match_first title_re block = Some titleMatch \<and> match_first uddg_re block = Some urlMatch \<and>
    decodeURIComponent (capture 1 urlMatch) = Inr address \<and>
    displayUrl_of hostname block address = Inr shown \<longrightarrow>
      block_results hostname (block # blocks) =
        \<lparr>title = cleanHTML (capture 1 titleMatch), url = address, displayUrl = shown,
         snippet = snippet_of block\<rparr> # block_results hostname blocks) \<and>
   (match_first snippet_re block = None \<longrightarrow> snippet_of block = []) \<and>
   (match_first display_url_re block = None \<longrightarrow>
      displayUrl_of hostname block address = hostname address) \<and>
   (match_first title_re block = Some titleMatch \<and> match_first uddg_re block = Some urlMatch \<and>
    (decodeURIComponent (capture 1 urlMatch) = Inl e \<or>
     decodeURIComponent (capture 1 urlMatch) = Inr address \<and>
     displayUrl_of hostname block address = Inl e) \<longrightarrow>
      block_results hostname (block # blocks) = block_results hostname blocks)"
proof -
  have "length (block_results hostname (take 10 (blocks_of html))) \<le> 10"
    using block_results_length [of hostname "take 10 (blocks_of html)"] by simp
  then have "length (extractDDGResults hostname html) \<le> 10"
    by (simp add: extractDDGResults_blocks_of)
  moreover have "match_first title_re block = None \<or> match_first uddg_re block = None \<longrightarrow>
      block_results hostname (block # blocks) = block_results hostname blocks"
    by (auto simp: result_of_block_def split: option.splits)
  moreover have "match_first title_re block = Some titleMatch \<and>
      match_first uddg_re block = Some urlMatch \<and>
      decodeURIComponent (capture 1 urlMatch) = Inr address \<and>
      displayUrl_of hostname block address = Inr shown \<longrightarrow>
      block_results hostname (block # blocks) =
        \<lparr>title = cleanHTML (capture 1 titleMatch), url = address, displayUrl = shown,
         snippet = snippet_of block\<rparr> # block_results hostname blocks"
    by (simp add: result_of_block_def)
  moreover have "match_first snippet_re block = None \<longrightarrow> snippet_of block = []"
    by (simp add: snippet_of_def)
  moreover have "match_first display_url_re block = None \<longrightarrow>
      displayUrl_of hostname block address = hostname address"
    by (simp add: displayUrl_of_def)
  moreover have "match_first title_re block = Some titleMatch \<and>
      match_first uddg_re block = Some urlMatch \<and>
      (decodeURIComponent (capture 1 urlMatch) = Inl e \<or>
       decodeURIComponent (capture 1 urlMatch) = Inr address \<and>
       displayUrl_of hostname block address = Inl e) \<longrightarrow>
      block_results hostname (block # blocks) = block_results hostname blocks"
    by (auto simp: result_of_block_def)
  ultimately show ?thesis
    by (simp add: extractDDGResults_blocks_of)
qed

text \<open>In the page of the concrete run, the second block has no display URL and gets the
  host name of its link; the first has no snippet and gets the empty string.\<close>

theorem extractDDGResults_per_block_witness:
  "length (extractDDGResults plain_hostname two_results_html) \<le> 10 \<and>
   match_first display_url_re peru_block = None \<and>
   displayUrl_of plain_hostname peru_block (asc ''https://b.example/'') = Inr (asc ''b.example'') \<and>
   block_results plain_hostname [peru_block] =
     [\<lparr>title = asc ''Peru & Lima'', url = asc ''https://b.example/'',
       displayUrl = asc ''b.example'', snippet = snippet_of peru_block\<rparr>] \<and>
   match_first snippet_re lima_block = None \<and> snippet_of lima_block = []"
proof -
  obtain t where t: "match_first title_re peru_block = Some t"
    and t1: "capture 1 t = asc ''Peru &amp; Lima''"
    using peru_block_title by (cases "match_first title_re peru_block") auto
  obtain u where u: "match_first uddg_re peru_block = Some u"
    and u1: "capture 1 u = asc ''https%3A%2F%2Fb.example%2F''"
    using peru_block_uddg by (cases "match_first uddg_re peru_block") auto
  have c: "cleanHTML (capture 1 t) = asc ''Peru & Lima''"
    unfolding t1 by (simp add: regex_eval tag_re_def spaces_re_def cleanHTML_def del: One_nat_def)
  have d: "decodeURIComponent (capture 1 u) = Inr (asc ''https://b.example/'')"
    unfolding u1 by (rule peru_address)
  note peru = extractDDGResults_per_block [of plain_hostname two_results_html peru_block "[]" t u
      "asc ''https://b.example/''" "asc ''b.example''"]
  note lima = extractDDGResults_per_block [of plain_hostname two_results_html lima_block]
  have 1: "length (extractDDGResults plain_hostname two_results_html) \<le> 10"
    using peru by blast
  have 2: "displayUrl_of plain_hostname peru_block (asc ''https://b.example/'') =
           Inr (asc ''b.example'')"
    using peru peru_block_display peru_host by metis
  have "block_results plain_hostname [peru_block] =
     \<lparr>title = cleanHTML (capture 1 t), url = asc ''https://b.example/'',
      displayUrl = asc ''b.example'', snippet = snippet_of peru_block\<rparr> #
     block_results plain_hostname []"
    using peru t u d 2 by blast
  then have 3: "block_results plain_hostname [peru_block] =
     [\<lparr>title = asc ''Peru & Lima'', url = asc ''https://b.example/'',
       displayUrl = asc ''b.example'', snippet = snippet_of peru_block\<rparr>]"
    unfolding c by simp
  have 4: "snippet_of lima_block = []"
    using lima lima_block_snippet by blast
  from 1 2 3 4 peru_block_display lima_block_snippet show ?thesis
    by blast
qed

text \<open>
  C6, as it is stated, fails on a block whose link cannot be decoded: the title and the
  URL pattern match, only the snippet is missing, and the block gives no result, because
  \<open>decodeURIComponent\<close> throws on \<open>100%\<close> and the \<open>catch\<close> goes on with the next block.
\<close>

theorem undecodable_link_skipped:
  "blocks_of bad_escape_html = [bad_escape_block] \<and>
   match_first title_re bad_escape_block \<noteq> None \<and>
   match_first uddg_re bad_escape_block \<noteq> None \<and>
   match_first display_url_re bad_escape_block \<noteq> None \<and>
   match_first snippet_re bad_escape_block = None \<and>
   extractDDGResults plain_hostname bad_escape_html = []"
  by (simp add: bad_escape_blocks bad_escape_title bad_escape_uddg bad_escape_display
        bad_escape_snippet extractDDGResults_blocks_of bad_escape_result)

section \<open>Properties of \<open>searchDuckDuckGo\<close>\<close>

lemma searchDuckDuckGo_fetched:
  assumes "encodeURIComponent q = Inr encodedQuery"
    and "outcome (makeRequest tr (search_url encodedQuery)
                    \<lparr>timeout = Some 10000, retries = Some (Num 2)\<rparr>) = Inr html"
  shows "searchDuckDuckGo tr hostname q = search_page hostname q html"
  using assms by (simp add: searchDuckDuckGo_def)

text \<open>
  C5. Once the result page is fetched: when the primary patterns find nothing and the
  alternative patterns find something, \<open>searchDuckDuckGo\<close> returns what the alternative
  found, with no error; it returns an empty list with an error exactly when both find
  nothing, and the error is then the fixed message.
\<close>

theorem searchDuckDuckGo_fallback:
  assumes "encodeURIComponent q = Inr encodedQuery"
    and "outcome (makeRequest tr (search_url encodedQuery)
                    \<lparr>timeout = Some 10000, retries = Some (Num 2)\<rparr>) = Inr html"
  shows "(extractDDGResults hostname html = [] \<and>
          extractDDGResultsAlternative hostname html \<noteq> [] \<longrightarrow>
            searchDuckDuckGo tr hostname q =
              \<lparr>search_query = q,
               search_results = extractDDGResultsAlternative hostname html,
               search_error = None\<rparr>) \<and>
         (search_results (searchDuckDuckGo tr hostname q) = [] \<and>
          search_error (searchDuckDuckGo tr hostname q) \<noteq> None \<longleftrightarrow>
            extractDDGResults hostname html = [] \<and>
            extractDDGResultsAlternative hostname html = []) \<and>
         (extractDDGResults hostname html = [] \<and>
          extractDDGResultsAlternative hostname html = [] \<longrightarrow>
            searchDuckDuckGo tr hostname q =
              \<lparr>search_query = q, search_results = [],
               search_error = Some (asc ''No results found or couldn't parse results'')\<rparr>)"
  unfolding searchDuckDuckGo_fetched [OF assms]
  by (auto simp: search_page_def Let_def)

theorem searchDuckDuckGo_fallback_witness:
  "encodeURIComponent demo_query = Inr (asc ''capital%20of%20Peru'') \<and>
   outcome (makeRequest loose_transport (search_url (asc ''capital%20of%20Peru''))
              \<lparr>timeout = Some 10000, retries = Some (Num 2)\<rparr>) = Inr loose_html \<and>
   extractDDGResults plain_hostname loose_html = [] \<and>
   searchDuckDuckGo loose_transport plain_hostname demo_query =
     \<lparr>search_query = demo_query,
      search_results =
        [\<lparr>title = asc ''Cusco'', url = asc ''https://c.example/'',
          displayUrl = asc ''c.example'', snippet = asc ''A city''\<rparr>],
      search_error = None\<rparr>"
proof -
  have e: "encodeURIComponent demo_query = Inr (asc ''capital%20of%20Peru'')"
    by (simp add: demo_query_def uri_eval asc_def)
  have f: "outcome (makeRequest loose_transport (search_url (asc ''capital%20of%20Peru''))
              \<lparr>timeout = Some 10000, retries = Some (Num 2)\<rparr>) = Inr loose_html"
    by (simp add: request_eval loose_transport_def)
  show ?thesis
    using searchDuckDuckGo_fallback [OF e f, of plain_hostname]
    by (simp add: e f loose_primary loose_alternative)
qed


section \<open>Properties of the web research pipeline\<close>

text \<open>\<open>Promise.allSettled\<close> resolves with the outcome of every promise, in the order of
  the promises, whatever the order in which they settle.\<close>

lemma write_slot_length: "length (foldl (write_slot ps) slots order) = length slots"
  by (induction order arbitrary: slots) (simp_all add: write_slot_def)

lemma write_slot_nth:
  "j < length slots \<Longrightarrow>
   foldl (write_slot ps) slots order ! j =
     (if j \<in> set order then Some (settle (ps ! j)) else slots ! j)"
proof (induction order arbitrary: slots)
  case Nil
  then show ?case by simp
next
  case (Cons i order)
  then show ?case
    by (cases "i = j") (auto simp: write_slot_def)
qed

lemma those_map_Some: "those (map Some xs) = Some xs"
  by (induction xs) simp_all

lemma set_completion_order: "set (completion_order timing n) = {0..<n}"
  by (simp add: completion_order_def)

lemma allSettled_all: "allSettled timing ps = Some (map settle ps)"
proof -
  let ?slots = "foldl (write_slot ps) (replicate (length ps) None)
                  (completion_order timing (length ps))"
  have "?slots = map Some (map settle ps)"
  proof (rule nth_equalityI)
    show "length ?slots = length (map Some (map settle ps))"
      by (simp add: write_slot_length)
  next
    fix j assume "j < length ?slots"
    then have j: "j < length ps" by (simp add: write_slot_length)
    then show "?slots ! j = map Some (map settle ps) ! j"
      by (simp add: write_slot_nth set_completion_order)
  qed
  then show ?thesis
    unfolding allSettled_def using those_map_Some [of "map settle ps"] by simp
qed

lemma search_error_no_results:
  "search_error (searchDuckDuckGo tr hostname q) \<noteq> None \<Longrightarrow>
   search_results (searchDuckDuckGo tr hostname q) = []"
  by (auto simp: searchDuckDuckGo_def search_page_def Let_def split: sum.splits if_splits)

lemma webSearch_found:
  assumes "search_results (searchDuckDuckGo (net SearchRequest) hostname q) \<noteq> []"
  shows "webSearch net hostname timing q =
         Some \<lparr>query = q,
           results = processed net (search_results (searchDuckDuckGo (net SearchRequest) hostname q)),
           response_error = None\<rparr>"
proof -
  let ?sr = "searchDuckDuckGo (net SearchRequest) hostname q"
  have e: "search_error ?sr = None"
    using assms search_error_no_results [of "net SearchRequest" hostname q] by blast
  let ?ps = "map (\<lambda>(index, r). Inr (fetchPageContent (net (PageRequest index)) (url r)))
               (enumerate 0 (take 5 (search_results ?sr)))"
  have s: "allSettled timing ?ps = Some (map settle ?ps)"
    by (rule allSettled_all)
  have "map (\<lambda>(index, r). content_result r (map settle ?ps ! index))
          (enumerate 0 (take 5 (search_results ?sr))) = processed net (search_results ?sr)"
    unfolding processed_def
    by (rule nth_equalityI) (simp_all add: nth_enumerate_eq split_beta)
  then show ?thesis
    using assms e s by (simp add: webSearch_def Let_def truthy_def)
qed

lemma webSearch_nothing:
  assumes "search_results (searchDuckDuckGo (net SearchRequest) hostname q) = []"
  shows "webSearch net hostname timing q =
         Some \<lparr>query = q, results = [],
           response_error =
             Some (or_else (search_error (searchDuckDuckGo (net SearchRequest) hostname q))
               (asc ''No search results found''))\<rparr>"
  using assms by (simp add: webSearch_def Let_def)

lemma content_result_keeps:
  "title (content_result r s) = title r \<and> url (content_result r s) = url r \<and>
   displayUrl (content_result r s) = displayUrl r \<and> snippet (content_result r s) = snippet r"
  by (cases s) (simp_all add: content_result.simps SearchResult.defs)

lemma content_result_Fulfilled:
  "content (content_result r (Fulfilled v)) = page_content v \<and>
   error (content_result r (Fulfilled v)) = page_error v"
  by (simp add: content_result.simps SearchResult.defs ContentResult.defs)

lemma processed_length: "length (processed net hits) = min (length hits) 5"
  by (simp add: processed_def min.commute)

lemma processed_nth:
  "i < length (processed net hits) \<Longrightarrow>
   processed net hits ! i =
     content_result (hits ! i)
       (Fulfilled (fetchPageContent (net (PageRequest i)) (url (hits ! i))))"
  by (simp add: processed_def nth_enumerate_eq)

text \<open>The concrete run.\<close>

lemma demo_search:
  "searchDuckDuckGo (net_with first SearchRequest) plain_hostname demo_query =
     \<lparr>search_query = demo_query,
      search_results =
        [\<lparr>title = asc ''Lima'', url = asc ''https://a.example/lima'',
          displayUrl = asc ''a.example/lima'', snippet = []\<rparr>,
         \<lparr>title = asc ''Peru & Lima'', url = asc ''https://b.example/'',
          displayUrl = asc ''b.example'', snippet = asc ''The capital of Peru''\<rparr>],
      search_error = None\<rparr>"
proof -
  have "encodeURIComponent demo_query = Inr (asc ''capital%20of%20Peru'')"
    by (simp add: demo_query_def uri_eval asc_def)
  then show ?thesis
    by (simp add: searchDuckDuckGo_def search_url_def request_eval search_page_def
          two_results_found net_with.simps Let_def)
qed

lemma lima_content: "extractMainContent lima_html = asc ''Lima is the capital.''"
  by (simp add: lima_html_def extractMainContent_def element_re_def comment_re_def
        contentSelectors_def class_div_re_def id_div_re_def quote_def no_quote_def
        content_names_def tag_re_def spaces_re_def cleanHTML_def regex_eval Let_def
        del: One_nat_def)

lemma unreachable_page:
  "fetchPageContent (net_with always_unreachable (PageRequest 0)) (asc ''https://a.example/lima'') =
     \<lparr>page_url = asc ''https://a.example/lima'', page_content = None,
      page_error = Some (asc ''fetch failed'')\<rparr>"
  by (simp add: fetchPageContent_def request_eval net_with.simps always_unreachable_def asc_def)

lemma silent_page:
  "fetchPageContent (net_with always_silent (PageRequest 0)) (asc ''https://a.example/lima'') =
     \<lparr>page_url = asc ''https://a.example/lima'', page_content = None, page_error = Some []\<rparr>"
  by (simp add: fetchPageContent_def request_eval net_with.simps always_silent_def asc_def)

lemma lima_page:
  "fetchPageContent (net_with first (PageRequest (Suc 0))) (asc ''https://b.example/'') =
     \<lparr>page_url = asc ''https://b.example/'', page_content = Some (asc ''Lima is the capital.''),
      page_error = None\<rparr>"
proof -
  have "extractMainContent lima_html \<noteq> []"
    by (simp add: lima_content asc_def)
  then show ?thesis
    by (simp add: fetchPageContent_def request_eval net_with.simps lima_content Let_def)
qed

lemma demo_run: "webSearch demo_net plain_hostname timing demo_query = Some demo_response"
proof -
  have "search_results (searchDuckDuckGo (net_with always_unreachable SearchRequest)
          plain_hostname demo_query) \<noteq> []"
    by (simp add: demo_search)
  then show ?thesis
    by (simp add: demo_net_def webSearch_found demo_search processed_def unreachable_page
          lima_page content_result.simps SearchResult.defs ContentResult.defs
          demo_response_def)
qed

lemma silent_run: "webSearch silent_net plain_hostname timing demo_query = Some silent_response"
proof -
  have "search_results (searchDuckDuckGo (net_with always_silent SearchRequest)
          plain_hostname demo_query) \<noteq> []"
    by (simp add: demo_search)
  then show ?thesis
    by (simp add: silent_net_def webSearch_found demo_search processed_def silent_page
          lima_page content_result.simps SearchResult.defs ContentResult.defs
          silent_response_def)
qed

text \<open>
  C4. Every run of \<open>webSearch\<close> returns. Its results are as many as the search found, at
  most 5; the result at each index has the title, URL, display URL and snippet of the
  search result at that index; and the response is the same for every order in which the
  fetches of the pages settle.
\<close>

theorem webSearch_results_in_order:
  "\<exists>resp. webSearch net hostname timing q = Some resp \<and>
     length (results resp) =
       min (length (search_results (searchDuckDuckGo (net SearchRequest) hostname q))) 5 \<and>
     (\<forall>i<length (results resp).
        title (results resp ! i) =
          title (search_results (searchDuckDuckGo (net SearchRequest) hostname q) ! i) \<and>
        url (results resp ! i) =
          url (search_results (searchDuckDuckGo (net SearchRequest) hostname q) ! i) \<and>
        displayUrl (results resp ! i) =
          displayUrl (search_results (searchDuckDuckGo (net SearchRequest) hostname q) ! i) \<and>
        snippet (results resp ! i) =
          snippet (search_results (searchDuckDuckGo (net SearchRequest) hostname q) ! i)) \<and>
     (\<forall>timing'. webSearch net hostname timing' q = Some resp)"
proof (cases "search_results (searchDuckDuckGo (net SearchRequest) hostname q) = []")
  case True
  then show ?thesis
    by (simp add: webSearch_nothing)
next
  case False
  then show ?thesis
    by (simp add: webSearch_found processed_length processed_nth content_result_keeps)
qed

theorem webSearch_results_in_order_witness:
  "length (search_results (searchDuckDuckGo (demo_net SearchRequest) plain_hostname demo_query)) = 2 \<and>
   webSearch demo_net plain_hostname demo_timing demo_query = Some demo_response \<and>
   webSearch demo_net plain_hostname (\<lambda>index. index) demo_query = Some demo_response \<and>
   length (results demo_response) = 2 \<and>
   url (results demo_response ! 1) =
     url (search_results (searchDuckDuckGo (demo_net SearchRequest) plain_hostname demo_query) ! 1)"
  using webSearch_results_in_order [of demo_net plain_hostname demo_timing demo_query]
  by (simp add: demo_run) (simp add: demo_net_def demo_search demo_response_def)

text \<open>
  C1, as the code has it. In every result of \<open>webSearch\<close> the content is null exactly
  when the fetch of its page failed (the extraction cannot fail), and the error is then
  the message of the error that ended the fetch; a result with content has no error. The
  result at an index is the same in every run that has the same search and the same
  answers to the request for the page at that index, whatever happens to the other pages.
\<close>

theorem webSearch_content_or_error:
  assumes "webSearch net hostname timing q = Some resp" and "i < length (results resp)"
  shows "(content (results resp ! i) = None \<longleftrightarrow>
            isl (outcome (makeRequest (net (PageRequest i)) (url (results resp ! i))
                   \<lparr>timeout = Some 15000, retries = Some (Num 1)\<rparr>))) \<and>
         (\<forall>e. outcome (makeRequest (net (PageRequest i)) (url (results resp ! i))
                  \<lparr>timeout = Some 15000, retries = Some (Num 1)\<rparr>) = Inl e \<longrightarrow>
              error (results resp ! i) = Some (exn_message e)) \<and>
         (content (results resp ! i) \<noteq> None \<longrightarrow> error (results resp ! i) = None) \<and>
         (\<forall>net' timing' resp'.
            net' SearchRequest = net SearchRequest \<and> net' (PageRequest i) = net (PageRequest i) \<and>
            webSearch net' hostname timing' q = Some resp' \<longrightarrow>
            i < length (results resp') \<and> results resp' ! i = results resp ! i)"
proof (cases "search_results (searchDuckDuckGo (net SearchRequest) hostname q) = []")
  case True
  with assms show ?thesis
    by (auto simp: webSearch_nothing)
next
  case False
  let ?found = "search_results (searchDuckDuckGo (net SearchRequest) hostname q)"
  have r: "results resp = processed net ?found"
    using assms(1) False by (auto simp: webSearch_found)
  then have i: "i < length (processed net ?found)"
    using assms(2) by simp
  let ?p = "fetchPageContent (net (PageRequest i)) (url (?found ! i))"
  have n: "results resp ! i = content_result (?found ! i) (Fulfilled ?p)"
    using r i by (simp add: processed_nth)
  then have u: "url (results resp ! i) = url (?found ! i)"
    by (simp add: content_result_keeps)
  have c: "content (results resp ! i) = page_content ?p" "error (results resp ! i) = page_error ?p"
    using n by (simp_all add: content_result_Fulfilled)
  have 1: "content (results resp ! i) = None \<longleftrightarrow>
        isl (outcome (makeRequest (net (PageRequest i)) (url (results resp ! i))
               \<lparr>timeout = Some 15000, retries = Some (Num 1)\<rparr>))"
    unfolding u c by (simp add: fetchPageContent_def Let_def split: sum.splits)
  have 2: "\<forall>e. outcome (makeRequest (net (PageRequest i)) (url (results resp ! i))
                  \<lparr>timeout = Some 15000, retries = Some (Num 1)\<rparr>) = Inl e \<longrightarrow>
              error (results resp ! i) = Some (exn_message e)"
    unfolding u c by (simp add: fetchPageContent_def Let_def split: sum.splits)
  have 3: "content (results resp ! i) \<noteq> None \<longrightarrow> error (results resp ! i) = None"
    unfolding c by (simp add: fetchPageContent_def Let_def split: sum.splits)
  have 4: "\<forall>net' timing' resp'.
            net' SearchRequest = net SearchRequest \<and> net' (PageRequest i) = net (PageRequest i) \<and>
            webSearch net' hostname timing' q = Some resp' \<longrightarrow>
            i < length (results resp') \<and> results resp' ! i = results resp ! i"
  proof (intro allI impI)
    fix net' timing' resp'
    assume a: "net' SearchRequest = net SearchRequest \<and>
      net' (PageRequest i) = net (PageRequest i) \<and> webSearch net' hostname timing' q = Some resp'"
    then have "results resp' = processed net' ?found"
      using False webSearch_found [of net' hostname q timing'] by auto
    then show "i < length (results resp') \<and> results resp' ! i = results resp ! i"
      using a i n by (simp add: processed_length processed_nth)
  qed
  from 1 2 3 4 show ?thesis by blast
qed

text \<open>In the concrete run the first page cannot be reached and the second can: the first
  result has no content and the message of the failure, the second has its content.\<close>

theorem webSearch_content_or_error_witness:
  "webSearch demo_net plain_hostname demo_timing demo_query = Some demo_response \<and>
   0 < length (results demo_response) \<and>
   isl (outcome (makeRequest (demo_net (PageRequest 0)) (url (results demo_response ! 0))
          \<lparr>timeout = Some 15000, retries = Some (Num 1)\<rparr>)) \<and>
   content (results demo_response ! 0) = None \<and>
   error (results demo_response ! 0) = Some (asc ''fetch failed'') \<and>
   content (results demo_response ! 1) = Some (asc ''Lima is the capital.'') \<and>
   error (results demo_response ! 1) = None"
proof -
  have l: "0 < length (results demo_response)"
    by (simp add: demo_response_def)
  have c: "content (results demo_response ! 0) = None"
    by (simp add: demo_response_def)
  show ?thesis
    using webSearch_content_or_error [OF demo_run l] c
    by (simp add: demo_run) (simp add: demo_response_def)
qed

text \<open>
  C1, as it is stated, fails where the error that ends a fetch has an empty message: the
  result has no content, and its error is the empty string.
\<close>

theorem empty_message_gives_empty_error:
  "webSearch silent_net plain_hostname demo_timing demo_query = Some silent_response \<and>
   content (results silent_response ! 0) = None \<and>
   error (results silent_response ! 0) = Some []"
  by (simp add: silent_run) (simp add: silent_response_def)


section \<open>Properties of \<open>normalizePhoneNumber\<close>\<close>

text \<open>A pattern that begins with \<open>^\<close> matches at the start or nowhere.\<close>

lemma exec_from_after_start:
  "0 < pos \<Longrightarrow> exec_from \<lparr>tree = Seq Bol r, ignoreCase = ic, dotAll = da\<rparr> pos prev rest = None"
proof (induction rest arbitrary: pos prev)
  case Nil
  then show ?case
    by (subst exec_from.simps) (simp add: match_at_def run.simps)
next
  case (Cons x xs)
  then show ?case
    by (subst exec_from.simps) (simp add: match_at_def run.simps)
qed

lemma test_anchored:
  "test \<lparr>tree = Seq Bol r, ignoreCase = ic, dotAll = da\<rparr> s \<longleftrightarrow>
   run ic da [Re r] 0 None s [] \<noteq> None"
  unfolding test_def match_first_def
  by (subst exec_from.simps)
     (auto simp: match_at_def run.simps exec_from_after_start split: option.splits list.splits)

lemma digit_class: "cls_match False False [(48, 57)] c = is_digit c"
  by (simp add: cls_match_def in_ranges_def is_digit_def)

text \<open>What the three tests of the cleaned number say.\<close>

lemma test_ten: "test ten_re s \<longleftrightarrow> length s = 10 \<and> list_all is_digit s"
  unfolding ten_re_def re_def seq_def
  apply (simp add: test_anchored digit_def)
  apply (simp add: run.simps digit_class split: list.splits)
  done

lemma test_one_ten:
  "test one_ten_re s \<longleftrightarrow> (\<exists>ds. s = asc ''1'' @ ds \<and> length ds = 10 \<and> list_all is_digit ds)"
  unfolding one_ten_re_def re_def seq_def
  apply (simp add: test_anchored digit_def str_def asc_def)
  apply (simp add: run.simps digit_class canon_def split: list.splits)
  done

lemma test_plus_one_ten:
  "test plus_one_ten_re s \<longleftrightarrow>
     (\<exists>ds. s = asc ''+1'' @ ds \<and> length ds = 10 \<and> list_all is_digit ds)"
  unfolding plus_one_ten_re_def re_def seq_def
  apply (simp add: test_anchored digit_def str_def asc_def)
  apply (simp add: run.simps digit_class canon_def split: list.splits)
  done

text \<open>Replacing every match of a class by nothing keeps the code units outside it.\<close>

lemma strip_class:
  "substitute \<lparr>tree = Cls negated rs, ignoreCase = False, dotAll = False\<rparr> [] pos prev 0 s =
     filter (\<lambda>c. \<not> cls_match False negated rs c) s"
proof (induction s arbitrary: pos prev)
  case Nil
  then show ?case
    by (subst substitute.simps) (simp add: match_at_def run.simps)
next
  case (Cons x xs)
  then show ?case
    by (subst substitute.simps) (simp add: match_at_def run.simps)
qed

lemma cleaned_phone_chars: "replace_all not_phone_char_re [] phone = phone_chars phone"
proof -
  have "(\<lambda>c. \<not> cls_match False True [(48, 57), (43, 43)] c) = (\<lambda>c. is_digit c \<or> c = 43)"
    by (auto simp: cls_match_def in_ranges_def is_digit_def)
  then show ?thesis
    by (simp add: replace_all_def not_phone_char_re_def re_def strip_class phone_chars_def)
qed

lemmas phone_eval = normalizePhoneNumber_def not_phone_char_re_def plus_one_ten_re_def
  one_ten_re_def ten_re_def startsWith_def phone_chars_def leading_plus_only_def is_digit_def
  Let_def

text \<open>
  C7, as the code has it. \<open>normalizePhoneNumber\<close> returns one string for every input.
  With every character removed that is neither a digit nor a \<open>+\<close> (every \<open>+\<close> is kept,
  wherever it stands): \<open>+1\<close> and ten digits give that string; \<open>1\<close> and ten digits give it
  with \<open>+\<close> before; ten digits give them with \<open>+1\<close> before.
\<close>

theorem normalizePhoneNumber_canonical:
  "length (normalizePhoneNumber phone) = 1 \<and>
   (phone_chars phone = asc ''+1'' @ ds \<and> length ds = 10 \<and> list_all is_digit ds \<longrightarrow>
      normalizePhoneNumber phone = [phone_chars phone]) \<and>
   (phone_chars phone = asc ''1'' @ ds \<and> length ds = 10 \<and> list_all is_digit ds \<longrightarrow>
      normalizePhoneNumber phone = [asc ''+'' @ phone_chars phone]) \<and>
   (length (phone_chars phone) = 10 \<and> list_all is_digit (phone_chars phone) \<longrightarrow>
      normalizePhoneNumber phone = [asc ''+1'' @ phone_chars phone])"
proof -
  have 1: "length (normalizePhoneNumber phone) = 1"
    by (simp add: normalizePhoneNumber_def Let_def)
  have 2: "phone_chars phone = asc ''+1'' @ ds \<and> length ds = 10 \<and> list_all is_digit ds \<longrightarrow>
      normalizePhoneNumber phone = [phone_chars phone]"
    by (auto simp: normalizePhoneNumber_def Let_def cleaned_phone_chars test_plus_one_ten)
  have 3: "phone_chars phone = asc ''1'' @ ds \<and> length ds = 10 \<and> list_all is_digit ds \<longrightarrow>
      normalizePhoneNumber phone = [asc ''+'' @ phone_chars phone]"
    by (auto simp: normalizePhoneNumber_def Let_def cleaned_phone_chars test_plus_one_ten
          test_one_ten asc_def)
  have 4: "length (phone_chars phone) = 10 \<and> list_all is_digit (phone_chars phone) \<longrightarrow>
      normalizePhoneNumber phone = [asc ''+1'' @ phone_chars phone]"
    by (auto simp: normalizePhoneNumber_def Let_def cleaned_phone_chars test_plus_one_ten
          test_one_ten test_ten asc_def)
  from 1 2 3 4 show ?thesis by blast
qed

text \<open>The three numbers of the specification all give \<open>+15551234567\<close>.\<close>

theorem normalizePhoneNumber_canonical_witness:
  "phone_chars (asc ''+1 (555) 123-4567'') = asc ''+1'' @ asc ''5551234567'' \<and>
   length (asc ''5551234567'') = 10 \<and> list_all is_digit (asc ''5551234567'') \<and>
   normalizePhoneNumber (asc ''+1 (555) 123-4567'') = [asc ''+15551234567''] \<and>
   normalizePhoneNumber (asc ''5551234567'') = [asc ''+15551234567''] \<and>
   normalizePhoneNumber (asc ''155-5123-4567'') = [asc ''+15551234567'']"
proof -
  have a: "phone_chars (asc ''+1 (555) 123-4567'') = asc ''+1'' @ asc ''5551234567''"
    by (simp add: phone_chars_def is_digit_def asc_def)
  have b: "length (asc ''5551234567'') = 10 \<and> list_all is_digit (asc ''5551234567'')"
    by (simp add: is_digit_def asc_def)
  have c: "normalizePhoneNumber (asc ''5551234567'') = [asc ''+15551234567'']"
    by (simp add: phone_eval regex_eval del: One_nat_def)
  have d: "normalizePhoneNumber (asc ''155-5123-4567'') = [asc ''+15551234567'']"
    by (simp add: phone_eval regex_eval del: One_nat_def)
  have "normalizePhoneNumber (asc ''+1 (555) 123-4567'') = [phone_chars (asc ''+1 (555) 123-4567'')]"
    using normalizePhoneNumber_canonical [of "asc ''+1 (555) 123-4567''" "asc ''5551234567''"] a b
    by blast
  then have "normalizePhoneNumber (asc ''+1 (555) 123-4567'') = [asc ''+15551234567'']"
    unfolding a by (simp add: asc_def)
  with a b c d show ?thesis by blast
qed

text \<open>
  C7, as it is stated, removes a \<open>+\<close> that does not lead. For \<open>555+1234567\<close> that leaves
  ten digits, for which the claim promises \<open>+15551234567\<close>; the code keeps the \<open>+\<close> and
  returns \<open>+1555+1234567\<close>.
\<close>

theorem interior_plus_is_kept:
  "leading_plus_only (asc ''555+1234567'') = asc ''5551234567'' \<and>
   length (leading_plus_only (asc ''555+1234567'')) = 10 \<and>
   list_all is_digit (leading_plus_only (asc ''555+1234567'')) \<and>
   normalizePhoneNumber (asc ''555+1234567'') = [asc ''+1555+1234567''] \<and>
   normalizePhoneNumber (asc ''555+1234567'') \<noteq> [asc ''+1'' @ leading_plus_only (asc ''555+1234567'')]"
proof -
  have a: "leading_plus_only (asc ''555+1234567'') = asc ''5551234567''"
    by (simp add: leading_plus_only_def phone_chars_def is_digit_def asc_def)
  have b: "normalizePhoneNumber (asc ''555+1234567'') = [asc ''+1555+1234567'']"
    by (simp add: phone_eval regex_eval del: One_nat_def)
  show ?thesis
    unfolding a b by (simp add: is_digit_def asc_def)
qed

section \<open>Properties of \<open>decodeAttributedBody\<close>\<close>

text \<open>Only the low byte of a code unit counts for the bytes.\<close>

lemma hex_bytes_low_byte: "hex_bytes (map (\<lambda>c. c + 256) s) = hex_bytes s"
  by (induction s rule: hex_bytes.induct) (auto split: option.splits)

lemma wide_bytes: "hex_bytes wide_hex = [72, 105]"
  by (simp add: wide_hex_def hex_value_def)

lemma captured_Nil: "captured [] s = []"
  by (simp add: captured_def)

lemma captured_Cons:
  "captured (p # ps) s =
     (case found p s of None \<Rightarrow> captured ps s | Some g \<Rightarrow> g # captured ps s)"
  by (simp add: captured_def split: option.split)

lemma captured_not_empty: "g \<in> set (captured ps s) \<Longrightarrow> g \<noteq> []"
  by (induction ps)
     (auto simp: captured_Nil captured_Cons found_def split: option.splits if_splits)

text \<open>The loop over the text patterns returns the first capture longer than 5, and when
  there is none the last capture, or the text it started with.\<close>

lemma text_loop_closed:
  "text_loop ps s text =
     (case find (\<lambda>g. 5 < length g) (captured ps s) of
        Some g \<Rightarrow> g
      | None \<Rightarrow> last (text # captured ps s))"
proof (induction ps arbitrary: "text")
  case Nil
  then show ?case by (simp add: captured_Nil)
next
  case (Cons p ps)
  then show ?case
    by (cases "found p s") (simp_all add: captured_Cons split: option.split)
qed

text \<open>The loop over the URL patterns returns the first capture.\<close>

lemma url_loop_closed: "url_loop ps s = first_capture ps s"
proof (induction ps)
  case Nil
  then show ?case by (simp add: first_capture_def captured_Nil)
next
  case (Cons p ps)
  then show ?case
    by (cases "found p s") (simp_all add: first_capture_def captured_Cons)
qed

lemma text_loop_short:
  assumes "captured ps s \<noteq> []" and "\<forall>g\<in>set (captured ps s). length g \<le> 5"
  shows "text_loop ps s [] = last (captured ps s) \<and> last (captured ps s) \<noteq> []"
proof -
  have "find (\<lambda>g. 5 < length g) (captured ps s) = None"
    using assms(2) by (auto simp: find_None_iff)
  then have "text_loop ps s [] = last (captured ps s)"
    using assms(1) by (simp add: text_loop_closed)
  moreover have "last (captured ps s) \<in> set (captured ps s)"
    using assms(1) by simp
  ultimately show ?thesis
    using captured_not_empty by blast
qed

lemma text_loop_long:
  assumes "find (\<lambda>g. 5 < length g) (captured ps s) = Some g"
  shows "text_loop ps s [] = g \<and> g \<noteq> []"
proof -
  have "5 < length g"
    using assms by (auto simp: find_Some_iff)
  then show ?thesis
    using assms by (auto simp: text_loop_closed)
qed

lemma text_loop_none: "captured ps s = [] \<Longrightarrow> text_loop ps s [] = []"
  by (simp add: text_loop_closed)

lemma first_capture_not_empty: "first_capture ps s = Some u \<Longrightarrow> u \<noteq> []"
proof -
  assume "first_capture ps s = Some u"
  then have "u \<in> set (captured ps s)"
    by (auto simp: first_capture_def split: list.splits)
  then show ?thesis
    by (rule captured_not_empty)
qed

text \<open>
  C9. \<open>decodeAttributedBody\<close> is a total function of the string: it returns a record for
  every input. With \<open>s\<close> the text of the bytes, the captures of the text patterns in their
  order, and the first capture of the URL patterns as the URL, its result is:

  \<^item> when there are captures and none is longer than 5, the cleaned last capture (or the
    URL when the cleaning leaves nothing): a short capture is the text, it is not
    rejected;
  \<^item> when a capture is longer than 5, the cleaned first such capture;
  \<^item> when no text pattern captures and a URL pattern does, the URL as the text;
  \<^item> when nothing is captured, the cleaned result of the generic cleanup when that is
    longer than 5, and else the placeholder \<open>[Message content not readable]\<close> without a
    URL.
\<close>

theorem decodeAttributedBody_keeps_short_capture:
  assumes "utf8_decode (hex_bytes hexString) = s"
  shows
    "(captured patterns s \<noteq> [] \<and> (\<forall>g\<in>set (captured patterns s). length g \<le> 5) \<longrightarrow>
        decodeAttributedBody hexString =
          \<lparr>decoded_text = or_else (Some (tidy (last (captured patterns s))))
                            (or_else (first_capture urlPatterns s) []),
           decoded_url = first_capture urlPatterns s\<rparr>) \<and>
     (find (\<lambda>g. 5 < length g) (captured patterns s) = Some g \<longrightarrow>
        decodeAttributedBody hexString =
          \<lparr>decoded_text = or_else (Some (tidy g)) (or_else (first_capture urlPatterns s) []),
           decoded_url = first_capture urlPatterns s\<rparr>) \<and>
     (captured patterns s = [] \<and> first_capture urlPatterns s = Some u \<longrightarrow>
        decodeAttributedBody hexString = \<lparr>decoded_text = u, decoded_url = Some u\<rparr>) \<and>
     (captured patterns s = [] \<and> first_capture urlPatterns s = None \<and>
      5 < length (readable s) \<longrightarrow>
        decodeAttributedBody hexString =
          \<lparr>decoded_text = tidy (readable s), decoded_url = None\<rparr>) \<and>
     (captured patterns s = [] \<and> first_capture urlPatterns s = None \<and>
      length (readable s) \<le> 5 \<longrightarrow>
        decodeAttributedBody hexString =
          \<lparr>decoded_text = asc ''[Message content not readable]'', decoded_url = None\<rparr>)"
proof -
  have d: "decodeAttributedBody hexString = decode_content s"
    by (simp add: decodeAttributedBody_def assms)
  have 1: "captured patterns s \<noteq> [] \<and> (\<forall>g\<in>set (captured patterns s). length g \<le> 5) \<longrightarrow>
        decodeAttributedBody hexString =
          \<lparr>decoded_text = or_else (Some (tidy (last (captured patterns s))))
                            (or_else (first_capture urlPatterns s) []),
           decoded_url = first_capture urlPatterns s\<rparr>"
    using text_loop_short [of patterns s]
    by (auto simp: d decode_content_def url_loop_closed Let_def)
  have 2: "find (\<lambda>g. 5 < length g) (captured patterns s) = Some g \<longrightarrow>
        decodeAttributedBody hexString =
          \<lparr>decoded_text = or_else (Some (tidy g)) (or_else (first_capture urlPatterns s) []),
           decoded_url = first_capture urlPatterns s\<rparr>"
    using text_loop_long [of patterns s g]
    by (auto simp: d decode_content_def url_loop_closed Let_def)
  have 3: "captured patterns s = [] \<and> first_capture urlPatterns s = Some u \<longrightarrow>
        decodeAttributedBody hexString = \<lparr>decoded_text = u, decoded_url = Some u\<rparr>"
    using text_loop_none [of patterns s] first_capture_not_empty [of urlPatterns s u]
    by (auto simp: d decode_content_def url_loop_closed or_else_def Let_def)
  have 4: "captured patterns s = [] \<and> first_capture urlPatterns s = None \<and>
      5 < length (readable s) \<longrightarrow>
        decodeAttributedBody hexString =
          \<lparr>decoded_text = tidy (readable s), decoded_url = None\<rparr>"
    using text_loop_none [of patterns s]
    by (auto simp: d decode_content_def url_loop_closed or_else_def Let_def)
  have 5: "captured patterns s = [] \<and> first_capture urlPatterns s = None \<and>
      length (readable s) \<le> 5 \<longrightarrow>
        decodeAttributedBody hexString =
          \<lparr>decoded_text = asc ''[Message content not readable]'', decoded_url = None\<rparr>"
    using text_loop_none [of patterns s]
    by (auto simp: d decode_content_def url_loop_closed not_readable_def Let_def)
  from 1 2 3 4 5 show ?thesis by blast
qed

lemmas capture_eval = captured_def first_capture_def patterns_def
  urlPatterns_def url_chars_def found_def

lemma short_bytes: "utf8_decode (hex_bytes short_hex) = short_body"
  by (simp add: short_hex_def short_body_def hex_value_def utf8_decode.simps asc_def)

lemma short_captured:
  "captured patterns short_body = [asc ''Hi''] \<and> first_capture urlPatterns short_body = None"
  by (simp add: capture_eval short_body_def regex_eval del: One_nat_def)

lemma hello_bytes: "utf8_decode (hex_bytes hello_hex) = hello_body"
  by (simp add: hello_hex_def hello_body_def hex_value_def utf8_decode.simps asc_def)

lemma hello_captured:
  "captured patterns hello_body = [asc ''Hi'', asc ''Hi'', asc ''Hello there''] \<and>
   first_capture urlPatterns hello_body = None"
  by (simp add: capture_eval hello_body_def regex_eval del: One_nat_def)

lemma link_bytes: "utf8_decode (hex_bytes link_hex) = link_body"
  by (simp add: link_hex_def link_body_def hex_value_def utf8_decode.simps asc_def)

lemma link_captured:
  "captured patterns link_body = [] \<and> first_capture urlPatterns link_body = Some link_body"
  by (simp add: capture_eval link_body_def regex_eval del: One_nat_def)

lemma plain_bytes: "utf8_decode (hex_bytes plain_hex) = plain_body"
  by (simp add: plain_hex_def plain_body_def hex_value_def utf8_decode.simps asc_def)

lemma plain_captured:
  "captured patterns plain_body = [] \<and> first_capture urlPatterns plain_body = None"
  by (simp add: capture_eval plain_body_def regex_eval del: One_nat_def)

lemma plain_readable: "readable plain_body = plain_body"
  by (simp add: readable_def spaces_re_def plain_body_def regex_eval del: One_nat_def)

lemma hi_bytes: "utf8_decode (hex_bytes hi_hex) = asc ''Hi''"
  by (simp add: hi_hex_def hex_value_def utf8_decode.simps asc_def)

lemma hi_captured:
  "captured patterns (asc ''Hi'') = [] \<and> first_capture urlPatterns (asc ''Hi'') = None"
  by (simp add: capture_eval regex_eval del: One_nat_def)

lemma hi_readable: "readable (asc ''Hi'') = asc ''Hi''"
  by (simp add: readable_def spaces_re_def regex_eval del: One_nat_def)

lemma tidy_fixtures:
  "tidy (asc ''Hi'') = asc ''Hi'' \<and> tidy (asc ''Hello there'') = asc ''Hello there'' \<and>
   tidy plain_body = plain_body"
  by (simp add: tidy_def spaces_re_def plain_body_def regex_eval del: One_nat_def)

text \<open>
  The body \<open>message>Hi<\<close>, whose only capture is the short \<open>Hi\<close>, gives the text \<open>Hi\<close>. The
  other bodies give the long capture, the URL, the cleaned sentence and the placeholder.
\<close>

theorem decodeAttributedBody_keeps_short_capture_witness:
  "utf8_decode (hex_bytes short_hex) = short_body \<and>
   captured patterns short_body = [asc ''Hi''] \<and>
   decodeAttributedBody short_hex = \<lparr>decoded_text = asc ''Hi'', decoded_url = None\<rparr> \<and>
   decodeAttributedBody hello_hex = \<lparr>decoded_text = asc ''Hello there'', decoded_url = None\<rparr> \<and>
   decodeAttributedBody link_hex = \<lparr>decoded_text = link_body, decoded_url = Some link_body\<rparr> \<and>
   decodeAttributedBody plain_hex = \<lparr>decoded_text = plain_body, decoded_url = None\<rparr> \<and>
   decodeAttributedBody hi_hex =
     \<lparr>decoded_text = asc ''[Message content not readable]'', decoded_url = None\<rparr>"
proof -
  have a: "decodeAttributedBody short_hex = \<lparr>decoded_text = asc ''Hi'', decoded_url = None\<rparr>"
    using decodeAttributedBody_keeps_short_capture [OF short_bytes] short_captured tidy_fixtures
    by (simp add: or_else_def asc_def)
  have b: "decodeAttributedBody hello_hex =
      \<lparr>decoded_text = asc ''Hello there'', decoded_url = None\<rparr>"
    using decodeAttributedBody_keeps_short_capture [OF hello_bytes, of "asc ''Hello there''"]
      hello_captured tidy_fixtures
    by (simp add: or_else_def asc_def)
  have c: "decodeAttributedBody link_hex =
      \<lparr>decoded_text = link_body, decoded_url = Some link_body\<rparr>"
    using decodeAttributedBody_keeps_short_capture [OF link_bytes, of _ link_body] link_captured
    by simp
  have d: "decodeAttributedBody plain_hex = \<lparr>decoded_text = plain_body, decoded_url = None\<rparr>"
    using decodeAttributedBody_keeps_short_capture [OF plain_bytes] plain_captured
      tidy_fixtures
    by (simp add: plain_readable) (simp add: plain_body_def asc_def)
  have e: "decodeAttributedBody hi_hex =
      \<lparr>decoded_text = asc ''[Message content not readable]'', decoded_url = None\<rparr>"
    using decodeAttributedBody_keeps_short_capture [OF hi_bytes] hi_captured
    by (simp add: hi_readable) (simp add: asc_def)
  from a b c d e short_bytes short_captured show ?thesis by blast
qed

text \<open>The same bytes, and so the same result, when 256 is added to every code unit of the
  input.\<close>

lemma wide_decoded:
  "decodeAttributedBody wide_hex =
     \<lparr>decoded_text = asc ''[Message content not readable]'', decoded_url = None\<rparr>"
proof -
  have "utf8_decode (hex_bytes wide_hex) = asc ''Hi''"
    by (simp add: wide_bytes utf8_decode.simps asc_def)
  then show ?thesis
    using hi_captured
    by (simp add: decodeAttributedBody_def decode_content_def text_loop_none url_loop_closed
          hi_readable not_readable_def Let_def) (simp add: asc_def)
qed

section \<open>Properties of the readers\<close>

lemma all_or_first_Inr: "all_or_first (map Inr vs) = Inr vs"
  by (induction vs) simp_all

lemma format_rows_dated:
  assumes "\<forall>m\<in>set messages. kept m \<longrightarrow> toISOString db (row_date m) = Inr (dates m)"
  shows "format_rows db (Inr messages) =
         map (\<lambda>m. formatted db m (dates m)) (filter kept messages)"
proof -
  have "map (format_row db) (filter kept messages) =
        map Inr (map (\<lambda>m. formatted db m (dates m)) (filter kept messages))"
    using assms by (simp add: format_row_def)
  then have "all_or_first (map (format_row db) (filter kept messages)) =
        Inr (map (\<lambda>m. formatted db m (dates m)) (filter kept messages))"
    by (simp only: all_or_first_Inr)
  then show ?thesis
    by (simp add: format_rows_def)
qed

lemma no_url_in_empty: "match_first text_url_re [] = None"
  by (simp add: text_url_re_def regex_eval del: One_nat_def)

text \<open>
  C8, as the code has it. When every date of the rows kept converts, both readers return
  the messages of the rows kept, in their order. A row with null content and attachment
  flag 0 is not kept. A row with null content and attachment flag 1 is kept; when it is
  not of the attributed type and has no subject, its content is \<open>[No text content]\<close>,
  followed by the marker with the number of attachments when the attachment query gives a
  file name, and its attachments are those file names; when the query gives none, there
  is no marker and no attachments field.
\<close>

theorem rows_without_text:
  assumes "db_access db"
    and "\<forall>m\<in>set messages. kept m \<longrightarrow> toISOString db (row_date m) = Inr (dates m)"
  shows "(sender_rows db (normalizePhoneNumber phoneNumber) limit = Inr messages \<longrightarrow>
            readMessages db phoneNumber limit =
              map (\<lambda>m. formatted db m (dates m)) (filter kept messages)) \<and>
         (unread_rows db limit = Inr messages \<longrightarrow>
            getUnreadMessages db limit =
              map (\<lambda>m. formatted db m (dates m)) (filter kept messages)) \<and>
         (row_content msg = None \<and> cache_has_attachments msg = 0 \<longrightarrow> \<not> kept msg) \<and>
         (row_content msg = None \<and> cache_has_attachments msg = 1 \<and> content_type msg \<noteq> 1 \<and>
          \<not> truthy (row_subject msg) \<longrightarrow>
            kept msg \<and>
            formatted db msg isoDate =
              \<lparr>msg_content =
                 asc ''[No text content]'' @
                 (if getAttachmentPaths db (message_id msg) = [] then []
                  else [10] @ asc ''[Attachments: '' @
                       decimal (length (getAttachmentPaths db (message_id msg))) @ asc '']''),
               msg_date = isoDate,
               msg_sender = row_sender msg,
               msg_is_from_me = (row_is_from_me msg \<noteq> 0),
               msg_attachments =
                 (if getAttachmentPaths db (message_id msg) = [] then None
                  else Some (getAttachmentPaths db (message_id msg))),
               msg_url = None\<rparr>)"
proof -
  have "row_content msg = None \<and> cache_has_attachments msg = 1 \<and> content_type msg \<noteq> 1 \<and>
          \<not> truthy (row_subject msg) \<longrightarrow>
            kept msg \<and>
            formatted db msg isoDate =
              \<lparr>msg_content =
                 asc ''[No text content]'' @
                 (if getAttachmentPaths db (message_id msg) = [] then []
                  else [10] @ asc ''[Attachments: '' @
                       decimal (length (getAttachmentPaths db (message_id msg))) @ asc '']''),
               msg_date = isoDate,
               msg_sender = row_sender msg,
               msg_is_from_me = (row_is_from_me msg \<noteq> 0),
               msg_attachments =
                 (if getAttachmentPaths db (message_id msg) = [] then None
                  else Some (getAttachmentPaths db (message_id msg))),
               msg_url = None\<rparr>"
    by (cases "row_subject msg")
       (auto simp: kept_def formatted_def text_and_url_def or_else_def truthy_def no_url_in_empty
          Let_def)
  moreover have "row_content msg = None \<and> cache_has_attachments msg = 0 \<longrightarrow> \<not> kept msg"
    by (simp add: kept_def)
  ultimately show ?thesis
    using assms by (simp add: readMessages_def getUnreadMessages_def format_rows_dated)
qed

lemmas store_eval = demo_store_def photo_row_def bare_row_def empty_row_def kept_def
  formatted_def text_and_url_def getAttachmentPaths_def or_else_def truthy_def demo_date_def
  no_url_in_empty decimal.simps asc_def Let_def

lemma demo_formats: "normalizePhoneNumber (asc ''(555) 123-4567'') = [asc ''+15551234567'']"
  by (simp add: phone_eval regex_eval del: One_nat_def)

lemma demo_dates:
  "\<forall>m\<in>set [photo_row, bare_row, empty_row].
     kept m \<longrightarrow> toISOString demo_store (row_date m) = Inr (demo_date m)"
  by (simp add: store_eval)

text \<open>In the concrete store the row with a photo gets the marker and the file name, and
  the row without attachments is left out.\<close>

theorem rows_without_text_witness:
  "db_access demo_store \<and>
   sender_rows demo_store (normalizePhoneNumber (asc ''(555) 123-4567'')) 10 =
     Inr [photo_row, bare_row, empty_row] \<and>
   row_content empty_row = None \<and> cache_has_attachments empty_row = 0 \<and>
   row_content photo_row = None \<and> cache_has_attachments photo_row = 1 \<and>
   length (readMessages demo_store (asc ''(555) 123-4567'') 10) = 2 \<and>
   msg_content (readMessages demo_store (asc ''(555) 123-4567'') 10 ! 0) =
     asc ''[No text content]'' @ [10] @ asc ''[Attachments: 1]'' \<and>
   msg_attachments (readMessages demo_store (asc ''(555) 123-4567'') 10 ! 0) =
     Some [asc ''~/Library/Messages/Attachments/a.jpg'']"
proof -
  have a: "db_access demo_store"
    by (simp add: demo_store_def)
  have q: "sender_rows demo_store (normalizePhoneNumber (asc ''(555) 123-4567'')) 10 =
     Inr [photo_row, bare_row, empty_row]"
    by (simp add: demo_formats) (simp add: demo_store_def)
  have f: "row_content empty_row = None \<and> cache_has_attachments empty_row = 0 \<and>
   row_content photo_row = None \<and> cache_has_attachments photo_row = 1"
    by (simp add: empty_row_def photo_row_def)
  have r: "readMessages demo_store (asc ''(555) 123-4567'') 10 =
        map (\<lambda>m. formatted demo_store m (demo_date m))
          (filter kept [photo_row, bare_row, empty_row])"
    using rows_without_text [OF a demo_dates, of "asc ''(555) 123-4567''" 10] q by blast
  have e: "length (map (\<lambda>m. formatted demo_store m (demo_date m))
          (filter kept [photo_row, bare_row, empty_row])) = 2 \<and>
     msg_content (map (\<lambda>m. formatted demo_store m (demo_date m))
          (filter kept [photo_row, bare_row, empty_row]) ! 0) =
       asc ''[No text content]'' @ [10] @ asc ''[Attachments: 1]'' \<and>
     msg_attachments (map (\<lambda>m. formatted demo_store m (demo_date m))
          (filter kept [photo_row, bare_row, empty_row]) ! 0) =
       Some [asc ''~/Library/Messages/Attachments/a.jpg'']"
    by (simp add: store_eval)
  show ?thesis
    unfolding r using a q f e by blast
qed

text \<open>
  C8, as it is stated, fails for a row whose attachment flag is set and whose attachment
  query gives no file name: the message is returned with the bare placeholder, without a
  marker and without an attachments field.
\<close>

theorem flag_without_files_has_no_marker:
  "row_content bare_row = None \<and> cache_has_attachments bare_row = 1 \<and>
   length (readMessages demo_store (asc ''(555) 123-4567'') 10) = 2 \<and>
   msg_content (readMessages demo_store (asc ''(555) 123-4567'') 10 ! 1) =
     asc ''[No text content]'' \<and>
   msg_attachments (readMessages demo_store (asc ''(555) 123-4567'') 10 ! 1) = None"
proof -
  have a: "db_access demo_store"
    by (simp add: demo_store_def)
  have q: "sender_rows demo_store [asc ''+15551234567''] 10 =
     Inr [photo_row, bare_row, empty_row]"
    by (simp add: demo_store_def)
  have r: "readMessages demo_store (asc ''(555) 123-4567'') 10 =
        map (\<lambda>m. formatted demo_store m (demo_date m))
          (filter kept [photo_row, bare_row, empty_row])"
    unfolding readMessages_def demo_formats q using a
    by (simp add: format_rows_dated [OF demo_dates])
  have f: "row_content bare_row = None \<and> cache_has_attachments bare_row = 1"
    by (simp add: bare_row_def)
  have e: "length (map (\<lambda>m. formatted demo_store m (demo_date m))
          (filter kept [photo_row, bare_row, empty_row])) = 2 \<and>
     msg_content (map (\<lambda>m. formatted demo_store m (demo_date m))
          (filter kept [photo_row, bare_row, empty_row]) ! 1) =
       asc ''[No text content]'' \<and>
     msg_attachments (map (\<lambda>m. formatted demo_store m (demo_date m))
          (filter kept [photo_row, bare_row, empty_row]) ! 1) = None"
    by (simp add: store_eval)
  show ?thesis
    unfolding r using f e by blast
qed

end
